theory Spec2Isabelle
  imports Complex_Main "HOL-Library.AList"
begin

section \<open>Data model of \<^verbatim>\<open>influx/influx_client.py\<close>\<close>

text \<open>
  The module \<^verbatim>\<open>influx_client.py\<close> is embedded function by function. What it imports
  from other modules (\<^verbatim>\<open>Table\<close>, \<^verbatim>\<open>InsertQuery\<close>, \<^verbatim>\<open>RetentionPolicy\<close>,
  \<^verbatim>\<open>ContinuousQuery\<close>, \<^verbatim>\<open>SelectionQuery\<close>, the \<^verbatim>\<open>influxdb\<close> driver) is
  represented by plain records, and the behaviour of those foreign methods is a
  parameter of every definition (the record \<open>env\<close> below).
\<close>

datatype keyword = SELECT | INSERT | DELETE

text \<open>A \<^verbatim>\<open>Table\<close>, as far as the client reads it: its name and the name of its
  retention policy. Tables are the keys of the insert buffer; two tables are the same
  key when they are equal as records.\<close>

record table =
  table_name :: string
  retention_policy_name :: string

text \<open>Python values that occur in field and tag dictionaries. A Python \<^verbatim>\<open>float\<close> is
  idealised as a real number.\<close>

datatype py_value =
    Py_str string
  | Py_int int
  | Py_float real
  | Py_bool bool
  | Py_keyword keyword

type_synonym py_dict = "(string \<times> py_value) list"

text \<open>\<^verbatim>\<open>InsertQuery(table, fields, tags, time_stamp)\<close>.\<close>

record insert_query =
  iq_table :: table
  iq_fields :: py_dict
  iq_tags :: py_dict
  iq_time_stamp :: int

text \<open>\<^verbatim>\<open>__insert_buffer: Dict[Table, List[InsertQuery]]\<close>. A Python dict iterates in
  insertion order and the flush iterates over it, so the buffer is an association list
  with one pair per key: \<open>map_of\<close> is \<^verbatim>\<open>dict.get\<close>, \<open>AList.update\<close> is item assignment
  (an existing key keeps its position, a new key goes last).\<close>

type_synonym insert_buffer = "(table \<times> insert_query list) list"

definition dict_get :: "('k \<times> 'v list) list \<Rightarrow> 'k \<Rightarrow> 'v list" where
  "dict_get d k = (case map_of d k of None \<Rightarrow> [] | Some v \<Rightarrow> v)"

text \<open>\<^verbatim>\<open>SelectionQuery\<close>: its keyword and its tables; its rendering is foreign.\<close>

record selection_query =
  sq_keyword :: keyword
  sq_tables :: "table list"

text \<open>\<^verbatim>\<open>ResultSet\<close> of the driver: the series it holds, each a list of rows
  (\<^verbatim>\<open>raw['series'][i]['values']\<close>). A result set is truthy when it holds a series;
  \<^verbatim>\<open>ResultSet({}, raise_errors=False)\<close> holds none.\<close>

type_synonym result_set = "py_value list list list"

record retention_policy =
  rp_name :: string
  rp_duration :: string
  rp_replication :: int
  rp_database :: string
  rp_default :: bool
  rp_shard_duration :: string

text \<open>One dictionary of \<^verbatim>\<open>get_list_retention_policies\<close>.\<close>

record rp_info =
  info_name :: string
  info_duration :: string
  info_shard_group_duration :: string
  info_replica_n :: int
  info_default :: bool

record continuous_query =
  cq_name :: string
  cq_database :: string
  cq_select :: string
  cq_resample_opts :: "string option"

text \<open>One dictionary of a database's list in \<^verbatim>\<open>get_list_continuous_queries\<close>.\<close>

record cq_result =
  cqr_name :: string
  cqr_query :: string

subsection \<open>Exceptions\<close>

text \<open>The exceptions of the driver that the module names in its handlers.
  \<open>ConnectionError\<close> is \<^verbatim>\<open>requests.exceptions.ConnectionError\<close>.\<close>

datatype driver_error = InfluxDBServerError | InfluxDBClientError | ConnectionError

text \<open>The \<^verbatim>\<open>ValueError\<close>s the module raises, one constructor per message.\<close>

datatype value_error =
    Missing_list_with_dicts      \<comment> \<open>"missing list with dictonarys in insert"\<close>
  | Missing_table_name           \<comment> \<open>"table name needs to be set in insert"\<close>
  | No_tables_count              \<comment> \<open>"need at least one entry of a table in tables_count."\<close>
  | Duration_not_positive        \<comment> \<open>"only positive values are supported for duration. Must be not 0"\<close>
  | Batch_size_not_positive      \<comment> \<open>"only positive values are supported for batch_size. Must be not 0"\<close>
  | Multiple_default_rp          \<comment> \<open>"multiple Retention Policies are declared as default"\<close>
  | RP_check_failed              \<comment> \<open>"Retention Policies check failed"\<close>
  | CQ_check_failed              \<comment> \<open>"Continuous Query check failed"\<close>
  | No_selection_query           \<comment> \<open>"a selection query must be given"\<close>

datatype exn = ValueError value_error | DriverError driver_error

datatype 'a outcome = Returned 'a | Raised exn

subsection \<open>The world the client acts on\<close>

text \<open>Every call to the driver and every \<^verbatim>\<open>ExceptionUtils.exception_info\<close> is recorded,
  in order, with the driver handle (\<^verbatim>\<open>self.__client\<close>) that made it.\<close>

datatype event =
    Write_points nat string string nat "string list"
      \<comment> \<open>client, database, retention policy, batch size, points\<close>
  | Query nat string string
      \<comment> \<open>client, database, query\<close>
  | Get_list_retention_policies nat string
  | Create_retention_policy nat retention_policy
  | Alter_retention_policy nat retention_policy
  | Get_list_continuous_queries nat
  | Drop_continuous_query nat string string
      \<comment> \<open>client, name, database\<close>
  | Create_continuous_query nat continuous_query
  | Close nat
  | Exception_info exn

text \<open>The world of one method call: the dict that \<^verbatim>\<open>self.__insert_buffer\<close> denotes in
  that call, and the record of the calls made so far. The methods only read the dict,
  assign items of it and call \<^verbatim>\<open>clear\<close> on it. Which dict the expression denotes for a
  given instance is the subject of the section on objects below.\<close>

record world =
  insert_buffer :: insert_buffer
  trace :: "event list"

text \<open>The attributes of one instance \<^verbatim>\<open>self\<close> that the methods read.\<close>

record influx_client =
  client :: nat                                   \<comment> \<open>\<^verbatim>\<open>self.__client\<close>, the driver handle\<close>
  database_name :: string                         \<comment> \<open>\<^verbatim>\<open>self.database.name\<close>\<close>
  database_tables :: "string \<Rightarrow> table"            \<comment> \<open>\<^verbatim>\<open>self.database[table_name]\<close>\<close>
  metrics_table :: table                          \<comment> \<open>\<^verbatim>\<open>self.__metrics_table\<close>\<close>
  retention_policies :: "retention_policy list"   \<comment> \<open>\<^verbatim>\<open>self.database.retention_policies\<close>\<close>
  continuous_queries :: "continuous_query list"   \<comment> \<open>\<^verbatim>\<open>self.database.continuous_queries\<close>\<close>

text \<open>What is outside the module: the methods of the foreign classes, the answers of
  the server, and the clocks. A driver call either succeeds or raises a
  \<open>driver_error\<close>. The durations are the differences of the two
  \<^verbatim>\<open>time.perf_counter()\<close> readings around a call. Within one call of a method the
  answer to a request is a function of the request; every call of a method takes an
  environment of its own.\<close>

record env =
  to_query :: "insert_query \<Rightarrow> string"
    \<comment> \<open>\<^verbatim>\<open>InsertQuery.to_query\<close>\<close>
  split_by_table_def :: "table \<Rightarrow> py_dict \<Rightarrow> (py_dict \<times> py_dict \<times> int) option"
    \<comment> \<open>the body of the \<^verbatim>\<open>try\<close> in \<^verbatim>\<open>insert_dicts_to_buffer\<close>: tags, values and the
        timestamp as an int, or \<open>None\<close> when a \<^verbatim>\<open>ValueError\<close> is raised\<close>
  selection_to_query :: "selection_query \<Rightarrow> string"
    \<comment> \<open>\<^verbatim>\<open>SelectionQuery.to_query\<close>\<close>
  rp_to_dict :: "retention_policy \<Rightarrow> rp_info"
    \<comment> \<open>\<^verbatim>\<open>RetentionPolicy.to_dict\<close>\<close>
  cq_to_query :: "continuous_query \<Rightarrow> string"
    \<comment> \<open>\<^verbatim>\<open>ContinuousQuery.to_query\<close>\<close>
  actual_time_sec :: "table \<Rightarrow> int"
    \<comment> \<open>\<^verbatim>\<open>SppUtils.get_actual_time_sec()\<close> when the metrics of a table are built\<close>
  write_points :: "table \<Rightarrow> string list \<Rightarrow> driver_error option"
  write_duration :: "table \<Rightarrow> string list \<Rightarrow> real"
  query_result :: "string \<Rightarrow> driver_error + result_set"
  query_duration :: "string \<Rightarrow> real"
  get_list_retention_policies :: "string \<Rightarrow> driver_error + rp_info list"
  create_retention_policy :: "retention_policy \<Rightarrow> driver_error option"
  alter_retention_policy :: "retention_policy \<Rightarrow> driver_error option"
  get_list_continuous_queries :: "driver_error + (string \<times> cq_result list) list list"
  drop_continuous_query :: "continuous_query \<Rightarrow> driver_error option"
  create_continuous_query :: "continuous_query \<Rightarrow> driver_error option"

definition log_event :: "event \<Rightarrow> world \<Rightarrow> world" where
  "log_event e w = w\<lparr>trace := trace w @ [e]\<rparr>"

text \<open>\<^verbatim>\<open>__query_max_batch_size = 10000\<close>\<close>

definition query_max_batch_size :: nat where
  "query_max_batch_size = 10000"

section \<open>The metrics recorder: \<^verbatim>\<open>__insert_metrics_to_buffer\<close>\<close>

text \<open>The \<^verbatim>\<open>InsertQuery\<close> built for one item of \<^verbatim>\<open>tables_count\<close>.\<close>

definition metrics_query ::
  "influx_client \<Rightarrow> env \<Rightarrow> keyword \<Rightarrow> real \<Rightarrow> int \<Rightarrow> table \<times> int \<Rightarrow> insert_query" where
  "metrics_query self e kw duration_s batch_size tc =
     \<lparr> iq_table = metrics_table self,
       iq_fields =
         [(''duration_ms'',
             Py_float (duration_s * 1000 * (real_of_int (max (snd tc) 1) / real_of_int batch_size))),
          (''item_count'', Py_int (snd tc))],
       iq_tags =
         [(''keyword'', Py_keyword kw),
          (''tableName'', Py_str (table_name (fst tc)))],
       iq_time_stamp = actual_time_sec e (fst tc) \<rparr>"

text \<open>The argument checks in the order of the source. The checks for \<^verbatim>\<open>None\<close> and for
  the type of \<^verbatim>\<open>keyword\<close> cannot fail on typed arguments.\<close>

definition insert_metrics_to_buffer ::
  "influx_client \<Rightarrow> env \<Rightarrow> keyword \<Rightarrow> (table \<times> int) list \<Rightarrow> real \<Rightarrow> int \<Rightarrow> world
     \<Rightarrow> unit outcome \<times> world" where
  "insert_metrics_to_buffer self e kw tables_count duration_s batch_size w =
     (if tables_count = [] then (Raised (ValueError No_tables_count), w)
      else if duration_s \<le> 0 then (Raised (ValueError Duration_not_positive), w)
      else if batch_size < 1 then (Raised (ValueError Batch_size_not_positive), w)
      else
        let querys = map (metrics_query self e kw duration_s batch_size) tables_count
        in (Returned (),
            w\<lparr>insert_buffer :=
                AList.update (metrics_table self)
                  (dict_get (insert_buffer w) (metrics_table self) @ querys)
                  (insert_buffer w)\<rparr>))"

section \<open>\<^verbatim>\<open>flush_insert_buffer\<close>\<close>

text \<open>The handlers of \<^verbatim>\<open>flush_insert_buffer\<close> and \<^verbatim>\<open>send_selection_query\<close> catch
  \<^verbatim>\<open>(InfluxDBServerError, InfluxDBClientError)\<close> and nothing else.\<close>

definition caught_influx_error :: "driver_error \<Rightarrow> bool" where
  "caught_influx_error err = (err = InfluxDBServerError \<or> err = InfluxDBClientError)"

text \<open>The \<^verbatim>\<open>try\<close> around \<^verbatim>\<open>write_points\<close>: a caught error is passed to
  \<^verbatim>\<open>exception_info\<close>, any other leaves the method.\<close>

definition try_write_points ::
  "influx_client \<Rightarrow> env \<Rightarrow> table \<Rightarrow> string list \<Rightarrow> world \<Rightarrow> unit outcome \<times> world" where
  "try_write_points self e tbl queries_str w =
     (let w1 = log_event (Write_points (client self) (database_name self)
                  (retention_policy_name tbl) query_max_batch_size queries_str) w
      in case write_points e tbl queries_str of
           None \<Rightarrow> (Returned (), w1)
         | Some err \<Rightarrow>
             if caught_influx_error err
             then (Returned (), log_event (Exception_info (DriverError err)) w1)
             else (Raised (DriverError err), w1))"

text \<open>The second loop of the flush, over \<^verbatim>\<open>insert_list\<close>. An exception that is not
  caught, and a \<^verbatim>\<open>ValueError\<close> of the metrics recorder, leave the loop.\<close>

fun send_insert_list ::
  "influx_client \<Rightarrow> env \<Rightarrow> (table \<times> string list) list \<Rightarrow> world \<Rightarrow> unit outcome \<times> world" where
  "send_insert_list self e [] w = (Returned (), w)"
| "send_insert_list self e ((tbl, queries_str) # rest) w =
     (case try_write_points self e tbl queries_str w of
        (Raised x, w1) \<Rightarrow> (Raised x, w1)
      | (Returned u, w1) \<Rightarrow>
          (case insert_metrics_to_buffer self e INSERT [(tbl, int (length queries_str))]
                  (write_duration e tbl queries_str) (int (length queries_str)) w1 of
             (Raised x, w2) \<Rightarrow> (Raised x, w2)
           | (Returned v, w2) \<Rightarrow> send_insert_list self e rest w2))"

text \<open>The buffer is a dict, never \<^verbatim>\<open>None\<close>, so the first check of the method cannot
  fail; an empty buffer returns at once. Otherwise the first loop renders every
  buffered query; then the buffer is cleared; then the rendered lists are sent.\<close>

definition insert_list_of :: "env \<Rightarrow> insert_buffer \<Rightarrow> (table \<times> string list) list" where
  "insert_list_of e buf = map (\<lambda>(tbl, queries). (tbl, map (to_query e) queries)) buf"

definition flush_insert_buffer :: "influx_client \<Rightarrow> env \<Rightarrow> world \<Rightarrow> unit outcome \<times> world" where
  "flush_insert_buffer self e w =
     (if insert_buffer w = [] then (Returned (), w)
      else send_insert_list self e (insert_list_of e (insert_buffer w))
             (w\<lparr>insert_buffer := []\<rparr>))"

section \<open>\<^verbatim>\<open>insert_dicts_to_buffer\<close>\<close>

text \<open>The loop over \<^verbatim>\<open>list_with_dicts\<close>: a dict whose classification raises a
  \<^verbatim>\<open>ValueError\<close> is skipped.\<close>

fun generate_queries :: "env \<Rightarrow> table \<Rightarrow> py_dict list \<Rightarrow> insert_query list" where
  "generate_queries e tbl [] = []"
| "generate_queries e tbl (mydict # rest) =
     (case split_by_table_def e tbl mydict of
        None \<Rightarrow> generate_queries e tbl rest
      | Some (tags, values, timestamp) \<Rightarrow>
          \<lparr>iq_table = tbl, iq_fields = values, iq_tags = tags, iq_time_stamp = timestamp\<rparr>
            # generate_queries e tbl rest)"

text \<open>\<open>None\<close> is Python's \<^verbatim>\<open>None\<close>; \<^verbatim>\<open>not table_name\<close> also holds for the empty
  string.\<close>

definition insert_dicts_to_buffer ::
  "influx_client \<Rightarrow> env \<Rightarrow> string option \<Rightarrow> py_dict list option \<Rightarrow> world
     \<Rightarrow> unit outcome \<times> world" where
  "insert_dicts_to_buffer self e tname list_with_dicts w =
     (case list_with_dicts of
        None \<Rightarrow> (Raised (ValueError Missing_list_with_dicts), w)
      | Some dicts \<Rightarrow>
          if tname = None \<or> tname = Some [] then (Raised (ValueError Missing_table_name), w)
          else if dicts = [] then (Returned (), w)
          else
            let tbl = database_tables self (the tname);
                query_buffer = generate_queries e tbl dicts;
                table_buffer = dict_get (insert_buffer w) tbl @ query_buffer;
                w1 = w\<lparr>insert_buffer := AList.update tbl table_buffer (insert_buffer w)\<rparr>
            in if length (dict_get (insert_buffer w1) tbl) > 5 * query_max_batch_size
               then flush_insert_buffer self e w1
               else (Returned (), w1))"

section \<open>\<^verbatim>\<open>send_selection_query\<close>\<close>

text \<open>The \<^verbatim>\<open>try\<close> around \<^verbatim>\<open>query\<close>: on a caught error the result is the empty
  \<^verbatim>\<open>ResultSet({}, raise_errors=False)\<close>.\<close>

definition try_query ::
  "influx_client \<Rightarrow> env \<Rightarrow> string \<Rightarrow> world \<Rightarrow> result_set outcome \<times> world" where
  "try_query self e query_str w =
     (let w1 = log_event (Query (client self) (database_name self) query_str) w
      in case query_result e query_str of
           Inr result \<Rightarrow> (Returned result, w1)
         | Inl err \<Rightarrow>
             if caught_influx_error err
             then (Returned [], log_event (Exception_info (DriverError err)) w1)
             else (Raised (DriverError err), w1))"

text \<open>\<^verbatim>\<open>len(result.raw['series'][0]['values'])\<close> for a truthy result, else 0.\<close>

definition result_length :: "result_set \<Rightarrow> nat" where
  "result_length result = (case result of [] \<Rightarrow> 0 | series # _ \<Rightarrow> length series)"

text \<open>\<^verbatim>\<open>tables_count[table] = int(length/len(query.tables))\<close> for every table of the
  query; the quotient of two naturals, truncated, is \<open>div\<close>.\<close>

definition tables_count_of :: "table list \<Rightarrow> nat \<Rightarrow> (table \<times> int) list" where
  "tables_count_of tables len =
     fold (\<lambda>tbl d. AList.update tbl (int (len div length tables)) d) tables []"

text \<open>What follows the flush check: send, count, record the metrics, return.\<close>

definition send_and_count ::
  "influx_client \<Rightarrow> env \<Rightarrow> selection_query \<Rightarrow> world \<Rightarrow> result_set outcome \<times> world" where
  "send_and_count self e query w =
     (let query_str = selection_to_query e query
      in case try_query self e query_str w of
           (Raised x, w1) \<Rightarrow> (Raised x, w1)
         | (Returned result, w1) \<Rightarrow>
             (case insert_metrics_to_buffer self e (sq_keyword query)
                     (tables_count_of (sq_tables query) (result_length result))
                     (query_duration e query_str) 1 w1 of
                (Raised x, w2) \<Rightarrow> (Raised x, w2)
              | (Returned u, w2) \<Rightarrow> (Returned result, w2)))"

text \<open>\<open>None\<close> stands for an argument that is falsy or no \<^verbatim>\<open>SelectionQuery\<close>. The loop
  over \<^verbatim>\<open>query.tables\<close> flushes at the first table that is a key of the buffer, and
  breaks.\<close>

definition buffered :: "world \<Rightarrow> table \<Rightarrow> bool" where
  "buffered w tbl = (tbl \<in> fst ` set (insert_buffer w))"

definition send_selection_query ::
  "influx_client \<Rightarrow> env \<Rightarrow> selection_query option \<Rightarrow> world \<Rightarrow> result_set outcome \<times> world" where
  "send_selection_query self e query w =
     (case query of
        None \<Rightarrow> (Raised (ValueError No_selection_query), w)
      | Some q \<Rightarrow>
          if list_ex (buffered w) (sq_tables q) then
            (case flush_insert_buffer self e w of
               (Raised x, w1) \<Rightarrow> (Raised x, w1)
             | (Returned u, w1) \<Rightarrow> send_and_count self e q w1)
          else send_and_count self e q w)"

section \<open>\<^verbatim>\<open>disconnect\<close>\<close>

text \<open>Two flushes inside one \<^verbatim>\<open>try\<close> that catches \<^verbatim>\<open>ValueError\<close>, then
  \<^verbatim>\<open>self.__client.close()\<close>. Each flush meets the server and the clock as they are
  at that time, so each has an environment of its own.\<close>

definition close_client :: "influx_client \<Rightarrow> world \<Rightarrow> unit outcome \<times> world" where
  "close_client self w = (Returned (), log_event (Close (client self)) w)"

definition flush_twice ::
  "influx_client \<Rightarrow> env \<Rightarrow> env \<Rightarrow> world \<Rightarrow> unit outcome \<times> world" where
  "flush_twice self e1 e2 w =
     (case flush_insert_buffer self e1 w of
        (Raised x, w1) \<Rightarrow> (Raised x, w1)
      | (Returned u, w1) \<Rightarrow> flush_insert_buffer self e2 w1)"

definition disconnect ::
  "influx_client \<Rightarrow> env \<Rightarrow> env \<Rightarrow> world \<Rightarrow> unit outcome \<times> world" where
  "disconnect self e1 e2 w =
     (case flush_twice self e1 e2 w of
        (Raised (ValueError v), w1) \<Rightarrow>
          close_client self (log_event (Exception_info (ValueError v)) w1)
      | (Raised (DriverError err), w1) \<Rightarrow> (Raised (DriverError err), w1)
      | (Returned u, w1) \<Rightarrow> close_client self w1)"

section \<open>\<^verbatim>\<open>check_create_rp\<close> and \<^verbatim>\<open>check_create_cq\<close>\<close>

text \<open>A loop that makes one driver call per item stops at the first call that raises.\<close>

fun call_each ::
  "('a \<Rightarrow> event) \<Rightarrow> ('a \<Rightarrow> driver_error option) \<Rightarrow> 'a list \<Rightarrow> world \<Rightarrow> exn option \<times> world" where
  "call_each ev call [] w = (None, w)"
| "call_each ev call (x # xs) w =
     (case call x of
        Some err \<Rightarrow> (Some (DriverError err), log_event (ev x) w)
      | None \<Rightarrow> call_each ev call xs (log_event (ev x) w))"

text \<open>The loop over \<^verbatim>\<open>self.database.retention_policies\<close>, with its three variables
  \<^verbatim>\<open>default_used\<close>, \<^verbatim>\<open>add_rp_list\<close> and \<^verbatim>\<open>alter_rp_list\<close>.\<close>

fun schedule_rp ::
  "(retention_policy \<Rightarrow> rp_info) \<Rightarrow> (string \<rightharpoonup> rp_info) \<Rightarrow> retention_policy list
     \<Rightarrow> bool \<Rightarrow> retention_policy list \<Rightarrow> retention_policy list
     \<Rightarrow> exn + (retention_policy list \<times> retention_policy list)" where
  "schedule_rp to_dict rp_dict [] default_used add_rp_list alter_rp_list =
     Inr (add_rp_list, alter_rp_list)"
| "schedule_rp to_dict rp_dict (rp # rest) default_used add_rp_list alter_rp_list =
     (if rp_default rp \<and> default_used then Inl (ValueError Multiple_default_rp)
      else
        let default_used' = (default_used \<or> rp_default rp)
        in case rp_dict (rp_name rp) of
             None \<Rightarrow>
               schedule_rp to_dict rp_dict rest default_used' (add_rp_list @ [rp]) alter_rp_list
           | Some result_rp \<Rightarrow>
               if result_rp \<noteq> to_dict rp
               then schedule_rp to_dict rp_dict rest default_used' add_rp_list
                      (alter_rp_list @ [rp])
               else schedule_rp to_dict rp_dict rest default_used' add_rp_list alter_rp_list)"

text \<open>The body of the \<^verbatim>\<open>try\<close>: the exception that leaves it, if any.\<close>

definition check_create_rp_body :: "influx_client \<Rightarrow> env \<Rightarrow> world \<Rightarrow> exn option \<times> world" where
  "check_create_rp_body self e w =
     (let w0 = log_event (Get_list_retention_policies (client self) (database_name self)) w
      in case get_list_retention_policies e (database_name self) of
           Inl err \<Rightarrow> (Some (DriverError err), w0)
         | Inr results \<Rightarrow>
             let rp_dict = fold (\<lambda>result d. d(info_name result \<mapsto> result)) results Map.empty
             in case schedule_rp (rp_to_dict e) rp_dict (retention_policies self) False [] [] of
                  Inl x \<Rightarrow> (Some x, w0)
                | Inr (add_rp_list, alter_rp_list) \<Rightarrow>
                    (case call_each (Create_retention_policy (client self))
                            (create_retention_policy e) add_rp_list w0 of
                       (Some x, w1) \<Rightarrow> (Some x, w1)
                     | (None, w1) \<Rightarrow>
                         call_each (Alter_retention_policy (client self))
                           (alter_retention_policy e) alter_rp_list w1))"

text \<open>The handler catches \<^verbatim>\<open>ValueError\<close> and the three driver errors, that is
  everything the body can raise, and raises one \<^verbatim>\<open>ValueError\<close>.\<close>

definition check_create_rp :: "influx_client \<Rightarrow> env \<Rightarrow> world \<Rightarrow> unit outcome \<times> world" where
  "check_create_rp self e w =
     (case check_create_rp_body self e w of
        (Some x, w1) \<Rightarrow> (Raised (ValueError RP_check_failed), log_event (Exception_info x) w1)
      | (None, w1) \<Rightarrow> (Returned (), w1))"






section \<open>Objects: where \<^verbatim>\<open>self.__insert_buffer\<close> is looked up\<close>

text \<open>
  The methods above are functions of the dict that \<^verbatim>\<open>self.__insert_buffer\<close> denotes. Which
  dict that is, for a given instance, is decided by Python's attribute lookup: the entry
  of that name in the \<^verbatim>\<open>__dict__\<close> of the instance if there is one, else the attribute of
  the class. This section makes the lookup explicit. A store holds the binding of the
  class attribute (made once, by the class body, line 51), the binding in every instance
  (none after \<^verbatim>\<open>__init__\<close>, which assigns other attributes only), the contents of the dict
  objects, and the record of the driver calls. Instances and dict objects are known by
  their identity.
\<close>

type_synonym addr = nat
type_synonym obj = nat

record store =
  class_insert_buffer :: addr
    \<comment> \<open>the dict object bound to \<^verbatim>\<open>InfluxClient.__insert_buffer\<close>\<close>
  instance_insert_buffer :: "obj \<Rightarrow> addr option"
    \<comment> \<open>the dict object bound to that name in the \<^verbatim>\<open>__dict__\<close> of an instance, if any\<close>
  dict_objects :: "addr \<Rightarrow> insert_buffer"
    \<comment> \<open>the contents of the dict objects\<close>
  store_trace :: "event list"

text \<open>The evaluation of the expression \<^verbatim>\<open>self.__insert_buffer\<close>, and the contents of the
  dict it yields.\<close>

definition getattr_insert_buffer :: "store \<Rightarrow> obj \<Rightarrow> addr" where
  "getattr_insert_buffer s self_id =
     (case instance_insert_buffer s self_id of
        Some a \<Rightarrow> a
      | None \<Rightarrow> class_insert_buffer s)"

definition buffer_of :: "store \<Rightarrow> obj \<Rightarrow> insert_buffer" where
  "buffer_of s self_id = dict_objects s (getattr_insert_buffer s self_id)"

text \<open>The operations on a dict object that the methods use: item assignment
  \<^verbatim>\<open>d[k] = v\<close> and \<^verbatim>\<open>d.clear()\<close>. Both change the object; neither binds a name.\<close>

definition dict_setitem :: "addr \<Rightarrow> table \<Rightarrow> insert_query list \<Rightarrow> store \<Rightarrow> store" where
  "dict_setitem a k v s = s\<lparr>dict_objects := (dict_objects s)(a := AList.update k v (dict_objects s a))\<rparr>"

definition dict_clear :: "addr \<Rightarrow> store \<Rightarrow> store" where
  "dict_clear a s = s\<lparr>dict_objects := (dict_objects s)(a := [])\<rparr>"

definition log_call :: "event \<Rightarrow> store \<Rightarrow> store" where
  "log_call ev s = s\<lparr>store_trace := store_trace s @ [ev]\<rparr>"

text \<open>The methods that name \<^verbatim>\<open>self.__insert_buffer\<close>, and those that call them, statement
  by statement on the store; \<open>self_id\<close> is the identity of \<^verbatim>\<open>self\<close>, and \<open>self\<close> holds its
  other attributes. Line 532 evaluates \<^verbatim>\<open>self.__insert_buffer\<close> twice, once to read the old
  list and once for the item assignment.\<close>

definition insert_metrics_to_buffer_obj ::
  "obj \<Rightarrow> influx_client \<Rightarrow> env \<Rightarrow> keyword \<Rightarrow> (table \<times> int) list \<Rightarrow> real \<Rightarrow> int \<Rightarrow> store
     \<Rightarrow> unit outcome \<times> store" where
  "insert_metrics_to_buffer_obj self_id self e kw tables_count duration_s batch_size s =
     (if tables_count = [] then (Raised (ValueError No_tables_count), s)
      else if duration_s \<le> 0 then (Raised (ValueError Duration_not_positive), s)
      else if batch_size < 1 then (Raised (ValueError Batch_size_not_positive), s)
      else
        let querys = map (metrics_query self e kw duration_s batch_size) tables_count;
            new_list = dict_get (buffer_of s self_id) (metrics_table self) @ querys
        in (Returned (),
            dict_setitem (getattr_insert_buffer s self_id) (metrics_table self) new_list s))"

definition try_write_points_obj ::
  "influx_client \<Rightarrow> env \<Rightarrow> table \<Rightarrow> string list \<Rightarrow> store \<Rightarrow> unit outcome \<times> store" where
  "try_write_points_obj self e tbl queries_str s =
     (let s1 = log_call (Write_points (client self) (database_name self)
                  (retention_policy_name tbl) query_max_batch_size queries_str) s
      in case write_points e tbl queries_str of
           None \<Rightarrow> (Returned (), s1)
         | Some err \<Rightarrow>
             if caught_influx_error err
             then (Returned (), log_call (Exception_info (DriverError err)) s1)
             else (Raised (DriverError err), s1))"

fun send_insert_list_obj ::
  "obj \<Rightarrow> influx_client \<Rightarrow> env \<Rightarrow> (table \<times> string list) list \<Rightarrow> store
     \<Rightarrow> unit outcome \<times> store" where
  "send_insert_list_obj self_id self e [] s = (Returned (), s)"
| "send_insert_list_obj self_id self e ((tbl, queries_str) # rest) s =
     (case try_write_points_obj self e tbl queries_str s of
        (Raised x, s1) \<Rightarrow> (Raised x, s1)
      | (Returned u, s1) \<Rightarrow>
          (case insert_metrics_to_buffer_obj self_id self e INSERT
                  [(tbl, int (length queries_str))]
                  (write_duration e tbl queries_str) (int (length queries_str)) s1 of
             (Raised x, s2) \<Rightarrow> (Raised x, s2)
           | (Returned v, s2) \<Rightarrow> send_insert_list_obj self_id self e rest s2))"

definition flush_insert_buffer_obj ::
  "obj \<Rightarrow> influx_client \<Rightarrow> env \<Rightarrow> store \<Rightarrow> unit outcome \<times> store" where
  "flush_insert_buffer_obj self_id self e s =
     (if buffer_of s self_id = [] then (Returned (), s)
      else
        let insert_list = insert_list_of e (buffer_of s self_id)
        in send_insert_list_obj self_id self e insert_list
             (dict_clear (getattr_insert_buffer s self_id) s))"

definition insert_dicts_to_buffer_obj ::
  "obj \<Rightarrow> influx_client \<Rightarrow> env \<Rightarrow> string option \<Rightarrow> py_dict list option \<Rightarrow> store
     \<Rightarrow> unit outcome \<times> store" where
  "insert_dicts_to_buffer_obj self_id self e tname list_with_dicts s =
     (case list_with_dicts of
        None \<Rightarrow> (Raised (ValueError Missing_list_with_dicts), s)
      | Some dicts \<Rightarrow>
          if tname = None \<or> tname = Some [] then (Raised (ValueError Missing_table_name), s)
          else if dicts = [] then (Returned (), s)
          else
            let tbl = database_tables self (the tname);
                query_buffer = generate_queries e tbl dicts;
                table_buffer = dict_get (buffer_of s self_id) tbl @ query_buffer;
                s1 = dict_setitem (getattr_insert_buffer s self_id) tbl table_buffer s
            in if length (dict_get (buffer_of s1 self_id) tbl) > 5 * query_max_batch_size
               then flush_insert_buffer_obj self_id self e s1
               else (Returned (), s1))"

definition try_query_obj ::
  "influx_client \<Rightarrow> env \<Rightarrow> string \<Rightarrow> store \<Rightarrow> result_set outcome \<times> store" where
  "try_query_obj self e query_str s =
     (let s1 = log_call (Query (client self) (database_name self) query_str) s
      in case query_result e query_str of
           Inr result \<Rightarrow> (Returned result, s1)
         | Inl err \<Rightarrow>
             if caught_influx_error err
             then (Returned [], log_call (Exception_info (DriverError err)) s1)
             else (Raised (DriverError err), s1))"

definition send_and_count_obj ::
  "obj \<Rightarrow> influx_client \<Rightarrow> env \<Rightarrow> selection_query \<Rightarrow> store
     \<Rightarrow> result_set outcome \<times> store" where
  "send_and_count_obj self_id self e query s =
     (let query_str = selection_to_query e query
      in case try_query_obj self e query_str s of
           (Raised x, s1) \<Rightarrow> (Raised x, s1)
         | (Returned result, s1) \<Rightarrow>
             (case insert_metrics_to_buffer_obj self_id self e (sq_keyword query)
                     (tables_count_of (sq_tables query) (result_length result))
                     (query_duration e query_str) 1 s1 of
                (Raised x, s2) \<Rightarrow> (Raised x, s2)
              | (Returned u, s2) \<Rightarrow> (Returned result, s2)))"

definition send_selection_query_obj ::
  "obj \<Rightarrow> influx_client \<Rightarrow> env \<Rightarrow> selection_query option \<Rightarrow> store
     \<Rightarrow> result_set outcome \<times> store" where
  "send_selection_query_obj self_id self e query s =
     (case query of
        None \<Rightarrow> (Raised (ValueError No_selection_query), s)
      | Some q \<Rightarrow>
          if list_ex (\<lambda>tbl. tbl \<in> fst ` set (buffer_of s self_id)) (sq_tables q) then
            (case flush_insert_buffer_obj self_id self e s of
               (Raised x, s1) \<Rightarrow> (Raised x, s1)
             | (Returned u, s1) \<Rightarrow> send_and_count_obj self_id self e q s1)
          else send_and_count_obj self_id self e q s)"

definition flush_twice_obj ::
  "obj \<Rightarrow> influx_client \<Rightarrow> env \<Rightarrow> env \<Rightarrow> store \<Rightarrow> unit outcome \<times> store" where
  "flush_twice_obj self_id self e1 e2 s =
     (case flush_insert_buffer_obj self_id self e1 s of
        (Raised x, s1) \<Rightarrow> (Raised x, s1)
      | (Returned u, s1) \<Rightarrow> flush_insert_buffer_obj self_id self e2 s1)"

definition disconnect_obj ::
  "obj \<Rightarrow> influx_client \<Rightarrow> env \<Rightarrow> env \<Rightarrow> store \<Rightarrow> unit outcome \<times> store" where
  "disconnect_obj self_id self e1 e2 s =
     (case flush_twice_obj self_id self e1 e2 s of
        (Raised (ValueError v), s1) \<Rightarrow>
          (Returned (),
           log_call (Close (client self)) (log_call (Exception_info (ValueError v)) s1))
      | (Raised (DriverError err), s1) \<Rightarrow> (Raised (DriverError err), s1)
      | (Returned u, s1) \<Rightarrow> (Returned (), log_call (Close (client self)) s1))"

text \<open>The store after the class body has run: the class attribute is bound to a new,
  empty dict, and no instance exists.\<close>

definition class_body :: store where
  "class_body =
     \<lparr> class_insert_buffer = 0,
       instance_insert_buffer = (\<lambda>self_id. None),
       dict_objects = (\<lambda>a. []),
       store_trace = [] \<rparr>"

text \<open>What a program does with the class: it creates instances and calls their methods.
  \<^verbatim>\<open>InfluxClient(auth)\<close> makes an object whose \<^verbatim>\<open>__dict__\<close> is empty, and \<^verbatim>\<open>__init__\<close>
  assigns \<^verbatim>\<open>__user\<close>, \<^verbatim>\<open>__password\<close>, \<^verbatim>\<open>__use_ssl\<close>, \<^verbatim>\<open>__verify_ssl\<close>, \<^verbatim>\<open>__port\<close>,
  \<^verbatim>\<open>__address\<close>, \<^verbatim>\<open>__database\<close> and \<^verbatim>\<open>__metrics_table\<close>, so the new instance has no
  binding for \<^verbatim>\<open>__insert_buffer\<close>. A call that raises leaves the store as it is at that
  moment; the program may go on.\<close>

datatype call =
    Init obj
  | Insert_dicts_to_buffer obj influx_client env "string option" "py_dict list option"
  | Flush_insert_buffer obj influx_client env
  | Send_selection_query obj influx_client env "selection_query option"
  | Disconnect obj influx_client env env

fun exec :: "call \<Rightarrow> store \<Rightarrow> store" where
  "exec (Init self_id) s =
     s\<lparr>instance_insert_buffer := (instance_insert_buffer s)(self_id := None)\<rparr>"
| "exec (Insert_dicts_to_buffer self_id self e tname list_with_dicts) s =
     snd (insert_dicts_to_buffer_obj self_id self e tname list_with_dicts s)"
| "exec (Flush_insert_buffer self_id self e) s = snd (flush_insert_buffer_obj self_id self e s)"
| "exec (Send_selection_query self_id self e query) s =
     snd (send_selection_query_obj self_id self e query s)"
| "exec (Disconnect self_id self e1 e2) s = snd (disconnect_obj self_id self e1 e2 s)"

definition run :: "call list \<Rightarrow> store \<Rightarrow> store" where
  "run cs s = fold exec cs s"

text \<open>The store as the world of the methods of one instance, and the store after these
  methods have left the world \<open>w\<close>.\<close>

definition as_world :: "store \<Rightarrow> obj \<Rightarrow> world" where
  "as_world s self_id = \<lparr>insert_buffer = buffer_of s self_id, trace = store_trace s\<rparr>"

definition put_world :: "obj \<Rightarrow> world \<Rightarrow> store \<Rightarrow> store" where
  "put_world self_id w s =
     s\<lparr>dict_objects := (dict_objects s)(getattr_insert_buffer s self_id := insert_buffer w),
       store_trace := trace w\<rparr>"

definition through :: "obj \<Rightarrow> 'a outcome \<times> world \<Rightarrow> store \<Rightarrow> 'a outcome \<times> store" where
  "through self_id rw s = (fst rw, put_world self_id (snd rw) s)"

section \<open>Notions used in the statements\<close>

text \<open>The two fields of a metrics record, read back from its field dictionary.\<close>

definition duration_ms :: "insert_query \<Rightarrow> real" where
  "duration_ms q =
     (case map_of (iq_fields q) ''duration_ms'' of
        None \<Rightarrow> 0
      | Some v \<Rightarrow> (case v of Py_float d \<Rightarrow> d | _ \<Rightarrow> 0))"

definition item_count :: "insert_query \<Rightarrow> int" where
  "item_count q =
     (case map_of (iq_fields q) ''item_count'' of
        None \<Rightarrow> 0
      | Some v \<Rightarrow> (case v of Py_int n \<Rightarrow> n | _ \<Rightarrow> 0))"

text \<open>The metrics record that the flush builds for one item of its insert list, and
  the events that sending the item leaves in the trace.\<close>

definition flush_metrics :: "influx_client \<Rightarrow> env \<Rightarrow> table \<times> string list \<Rightarrow> insert_query" where
  "flush_metrics self e x =
     metrics_query self e INSERT (write_duration e (fst x) (snd x)) (int (length (snd x)))
       (fst x, int (length (snd x)))"

definition send_events :: "influx_client \<Rightarrow> env \<Rightarrow> table \<times> string list \<Rightarrow> event list" where
  "send_events self e x =
     Write_points (client self) (database_name self) (retention_policy_name (fst x))
         query_max_batch_size (snd x)
       # (case write_points e (fst x) (snd x) of
            None \<Rightarrow> []
          | Some err \<Rightarrow> [Exception_info (DriverError err)])"

text \<open>Sending an item succeeds or raises an error that the handler catches.\<close>

definition send_caught :: "env \<Rightarrow> table \<times> string list \<Rightarrow> bool" where
  "send_caught e x =
     (case write_points e (fst x) (snd x) of
        None \<Rightarrow> True
      | Some err \<Rightarrow> caught_influx_error err)"

text \<open>An item whose step of the loop goes through: the send is caught, the measured
  duration is positive, and there is at least one line.\<close>

definition step_ok :: "env \<Rightarrow> table \<times> string list \<Rightarrow> bool" where
  "step_ok e x = (send_caught e x \<and> 0 < write_duration e (fst x) (snd x) \<and> snd x \<noteq> [])"

text \<open>The buffer after the records \<open>ms\<close> were appended to the metrics table, one call of
  the recorder after the other.\<close>

definition with_metrics :: "table \<Rightarrow> insert_query list \<Rightarrow> insert_buffer \<Rightarrow> insert_buffer" where
  "with_metrics mt ms buf =
     (if ms = [] then buf else AList.update mt (dict_get buf mt @ ms) buf)"

text \<open>The world of \<^verbatim>\<open>insert_dicts_to_buffer\<close> after the queries of the dicts were
  appended to the table's list, and the number of queries then pending for a table.\<close>

definition appended :: "influx_client \<Rightarrow> env \<Rightarrow> string \<Rightarrow> py_dict list \<Rightarrow> world \<Rightarrow> world" where
  "appended self e tname dicts w =
     w\<lparr>insert_buffer :=
         AList.update (database_tables self tname)
           (dict_get (insert_buffer w) (database_tables self tname)
              @ generate_queries e (database_tables self tname) dicts)
           (insert_buffer w)\<rparr>"

definition pending :: "influx_client \<Rightarrow> string \<Rightarrow> world \<Rightarrow> nat" where
  "pending self tname w = length (dict_get (insert_buffer w) (database_tables self tname))"

text \<open>The world in which \<^verbatim>\<open>send_selection_query\<close> sends its query: the world after the
  flush, when a table of the query is a key of the buffer.\<close>

definition after_flush_check :: "influx_client \<Rightarrow> env \<Rightarrow> selection_query \<Rightarrow> world \<Rightarrow> world" where
  "after_flush_check self e q w =
     (if list_ex (buffered w) (sq_tables q) then snd (flush_insert_buffer self e w) else w)"





text \<open>A caller that flushes again and again and ingests nothing in between; each flush
  has its environment, and an exception ends the run.\<close>

fun flush_repeatedly :: "influx_client \<Rightarrow> env list \<Rightarrow> world \<Rightarrow> unit outcome \<times> world" where
  "flush_repeatedly self [] w = (Returned (), w)"
| "flush_repeatedly self (e # es) w =
     (case flush_insert_buffer self e w of
        (Raised x, w1) \<Rightarrow> (Raised x, w1)
      | (Returned u, w1) \<Rightarrow> flush_repeatedly self es w1)"

text \<open>The request that the flush makes for one item of its insert list.\<close>

definition write_event :: "influx_client \<Rightarrow> table \<times> string list \<Rightarrow> event" where
  "write_event self x =
     Write_points (client self) (database_name self) (retention_policy_name (fst x))
       query_max_batch_size (snd x)"

definition is_write :: "event \<Rightarrow> bool" where
  "is_write ev = (case ev of Write_points c d r b ps \<Rightarrow> True | _ \<Rightarrow> False)"

section \<open>Example values\<close>

definition table_A :: table where
  "table_A = \<lparr>table_name = ''A'', retention_policy_name = ''rp''\<rparr>"

definition table_B :: table where
  "table_B = \<lparr>table_name = ''B'', retention_policy_name = ''rp''\<rparr>"

definition table_M :: table where
  "table_M = \<lparr>table_name = ''influx_metrics'', retention_policy_name = ''rp''\<rparr>"

definition example_client :: influx_client where
  "example_client =
     \<lparr> client = 0,
       database_name = ''db'',
       database_tables = (\<lambda>n. \<lparr>table_name = n, retention_policy_name = ''rp''\<rparr>),
       metrics_table = table_M,
       retention_policies = [],
       continuous_queries = [] \<rparr>"

definition example_env :: env where
  "example_env =
     \<lparr> to_query = (\<lambda>q. table_name (iq_table q)),
       split_by_table_def = (\<lambda>tbl d. if d = [] then None else Some ([], d, 0)),
       selection_to_query = (\<lambda>q. ''SELECT''),
       rp_to_dict = (\<lambda>rp. \<lparr> info_name = rp_name rp, info_duration = rp_duration rp,
                              info_shard_group_duration = rp_shard_duration rp,
                              info_replica_n = rp_replication rp,
                              info_default = rp_default rp \<rparr>),
       cq_to_query = cq_select,
       actual_time_sec = (\<lambda>tbl. 0),
       write_points = (\<lambda>tbl ps. None),
       write_duration = (\<lambda>tbl ps. 1),
       query_result = (\<lambda>q. Inr []),
       query_duration = (\<lambda>q. 1),
       get_list_retention_policies = (\<lambda>db. Inr []),
       create_retention_policy = (\<lambda>rp. None),
       alter_retention_policy = (\<lambda>rp. None),
       get_list_continuous_queries = Inr [],
       drop_continuous_query = (\<lambda>cq. None),
       create_continuous_query = (\<lambda>cq. None) \<rparr>"

definition empty_world :: world where
  "empty_world = \<lparr>insert_buffer = [], trace = []\<rparr>"

definition row_1 :: py_dict where
  "row_1 = [(''field'', Py_int 1)]"

definition query_of :: "table \<Rightarrow> insert_query" where
  "query_of tbl = \<lparr>iq_table = tbl, iq_fields = row_1, iq_tags = [], iq_time_stamp = 0\<rparr>"

definition world_A :: world where
  "world_A = \<lparr>insert_buffer = [(table_A, [query_of table_A])], trace = []\<rparr>"

definition world_AB :: world where
  "world_AB =
     \<lparr>insert_buffer = [(table_A, [query_of table_A]), (table_B, [query_of table_B])],
      trace = []\<rparr>"

text \<open>Table A is a key of the buffer with no query.\<close>

definition world_empty_A :: world where
  "world_empty_A = \<lparr>insert_buffer = [(table_A, [])], trace = []\<rparr>"

text \<open>Table A is a key of the buffer with no query, followed by table B with one.\<close>

definition world_empty_A_then_B :: world where
  "world_empty_A_then_B =
     \<lparr>insert_buffer = [(table_A, []), (table_B, [query_of table_B])], trace = []\<rparr>"

text \<open>The connection drops while table A is written.\<close>

definition connection_error_env :: env where
  "connection_error_env =
     example_env\<lparr>write_points :=
       (\<lambda>tbl ps. if tbl = table_A then Some ConnectionError else None)\<rparr>"

text \<open>The server rejects the batch of table A.\<close>

definition server_error_env :: env where
  "server_error_env =
     example_env\<lparr>write_points :=
       (\<lambda>tbl ps. if tbl = table_A then Some InfluxDBServerError else None)\<rparr>"

text \<open>49999 queries are pending for table A.\<close>

definition many_queries :: "insert_query list" where
  "many_queries = replicate 49999 (query_of table_A)"

definition world_almost_full :: world where
  "world_almost_full = \<lparr>insert_buffer = [(table_A, many_queries)], trace = []\<rparr>"

definition select_A :: selection_query where
  "select_A = \<lparr>sq_keyword = SELECT, sq_tables = [table_A]\<rparr>"

text \<open>The server rejects every query; the connection drops at every query.\<close>

definition query_server_error_env :: env where
  "query_server_error_env = example_env\<lparr>query_result := (\<lambda>q. Inl InfluxDBServerError)\<rparr>"

definition query_connection_error_env :: env where
  "query_connection_error_env = example_env\<lparr>query_result := (\<lambda>q. Inl ConnectionError)\<rparr>"

text \<open>Two retention policies that are both declared default.\<close>

definition rp_day :: retention_policy where
  "rp_day = \<lparr>rp_name = ''day'', rp_duration = ''24h'', rp_replication = 1,
              rp_database = ''db'', rp_default = True, rp_shard_duration = ''1h''\<rparr>"

definition rp_year :: retention_policy where
  "rp_year = \<lparr>rp_name = ''year'', rp_duration = ''52w'', rp_replication = 1,
               rp_database = ''db'', rp_default = True, rp_shard_duration = ''1w''\<rparr>"

definition two_default_client :: influx_client where
  "two_default_client = example_client\<lparr>retention_policies := [rp_day, rp_year]\<rparr>"






text \<open>A second instance, with a driver handle and a database of its own.\<close>

definition other_client :: influx_client where
  "other_client = example_client\<lparr>client := 1, database_name := ''other''\<rparr>"

text \<open>Two instances have been created, with the identities 1 and 2.\<close>

definition two_instances :: store where
  "two_instances = run [Init 1, Init 2] class_body"

text \<open>A store in which instance 2 has a binding of its own, to the dict object 1. No
  call of the module makes such a store; a client of the class could.\<close>

definition rebound_store :: store where
  "rebound_store = class_body\<lparr>instance_insert_buffer := (\<lambda>self_id. None)(2 := Some 1)\<rparr>"

section \<open>Facts about the dictionary and the metrics record\<close>

lemma dict_get_update_same: "dict_get (AList.update k v d) k = v"
  by (simp add: dict_get_def update_conv')

lemma duration_ms_metrics_query:
  "duration_ms (metrics_query self e kw d b tc)
     = d * 1000 * (real_of_int (max (snd tc) 1) / real_of_int b)"
  by (simp add: duration_ms_def metrics_query_def)

lemma item_count_metrics_query: "item_count (metrics_query self e kw d b tc) = snd tc"
  by (simp add: item_count_def metrics_query_def)

lemma sum_list_scaled:
  "sum_list (map (\<lambda>x. a * (real_of_int (f x) / b)) xs)
     = a * (real_of_int (sum_list (map f xs)) / b)"
  by (induction xs) (simp_all add: algebra_simps add_divide_distrib)

section \<open>The metrics recorder\<close>

text \<open>
  Claim C6, as amended. Whenever \<^verbatim>\<open>__insert_metrics_to_buffer\<close> returns, it has appended
  to the metrics table one record per item of \<^verbatim>\<open>tables_count\<close>, in order, with
  \<open>item_count\<close> the item's count \<open>c\<close> and \<open>duration_ms\<close> equal to
  \<open>D * 1000 * (max c 1 / B)\<close>. For the items with \<open>c \<ge> 1\<close> this is \<open>D * 1000 * (c / B)\<close>,
  and when every count is at least 1 and the counts add up to the batch size \<open>B\<close>, the
  recorded durations add up to \<open>D * 1000\<close>. (Durations are real numbers here; the
  source computes them in floating point.)
\<close>

theorem metrics_duration_by_count:
  assumes "insert_metrics_to_buffer self e kw tables_count duration_s batch_size w = (Returned u, w')"
  shows "\<exists>querys.
      dict_get (insert_buffer w') (metrics_table self)
        = dict_get (insert_buffer w) (metrics_table self) @ querys
    \<and> map item_count querys = map snd tables_count
    \<and> map duration_ms querys
        = map (\<lambda>tc. duration_s * 1000 * (real_of_int (max (snd tc) 1) / real_of_int batch_size))
            tables_count
    \<and> ((\<forall>tc\<in>set tables_count. 1 \<le> snd tc) \<longrightarrow>
         map duration_ms querys
           = map (\<lambda>tc. duration_s * 1000 * (real_of_int (snd tc) / real_of_int batch_size))
               tables_count)
    \<and> ((\<forall>tc\<in>set tables_count. 1 \<le> snd tc) \<and> sum_list (map snd tables_count) = batch_size \<longrightarrow>
         sum_list (map duration_ms querys) = duration_s * 1000)"
proof -
  let ?qs = "map (metrics_query self e kw duration_s batch_size) tables_count"
  from assms have b: "1 \<le> batch_size"
    and w': "w' = w\<lparr>insert_buffer := AList.update (metrics_table self)
                  (dict_get (insert_buffer w) (metrics_table self) @ ?qs) (insert_buffer w)\<rparr>"
    by (auto simp: insert_metrics_to_buffer_def Let_def split: if_splits)
  have 1: "dict_get (insert_buffer w') (metrics_table self)
        = dict_get (insert_buffer w) (metrics_table self) @ ?qs"
    by (simp add: w' dict_get_update_same)
  have 2: "map item_count ?qs = map snd tables_count"
    by (simp add: item_count_metrics_query comp_def)
  have 3: "map duration_ms ?qs
        = map (\<lambda>tc. duration_s * 1000 * (real_of_int (max (snd tc) 1) / real_of_int batch_size))
            tables_count"
    by (simp add: duration_ms_metrics_query comp_def)
  have 4: "map duration_ms ?qs
           = map (\<lambda>tc. duration_s * 1000 * (real_of_int (snd tc) / real_of_int batch_size))
               tables_count" if "\<forall>tc\<in>set tables_count. 1 \<le> snd tc"
    using that by (auto simp: duration_ms_metrics_query max_def)
  have 5: "sum_list (map duration_ms ?qs) = duration_s * 1000"
    if "\<forall>tc\<in>set tables_count. 1 \<le> snd tc" and "sum_list (map snd tables_count) = batch_size"
  proof -
    have "sum_list (map duration_ms ?qs)
        = duration_s * 1000 * (real_of_int (sum_list (map snd tables_count)) / real_of_int batch_size)"
      unfolding 4[OF that(1)] by (rule sum_list_scaled)
    also have "\<dots> = duration_s * 1000" using b that(2) by simp
    finally show ?thesis .
  qed
  from 1 2 3 4 5 show ?thesis by blast
qed

text \<open>The example of the specification: tables with 7 and 3 rows in a batch of 10 that
  took one second get 700 and 300 milliseconds.\<close>

theorem metrics_duration_by_count_witness:
  "\<exists>w'. insert_metrics_to_buffer example_client example_env INSERT
           [(table_A, 7), (table_B, 3)] 1 10 empty_world = (Returned (), w')
      \<and> map duration_ms (dict_get (insert_buffer w') table_M) = [700, 300]
      \<and> map item_count (dict_get (insert_buffer w') table_M) = [7, 3]
      \<and> sum_list (map duration_ms (dict_get (insert_buffer w') table_M)) = 1000"
proof -
  obtain w' where r: "insert_metrics_to_buffer example_client example_env INSERT
           [(table_A, 7), (table_B, 3)] 1 10 empty_world = (Returned (), w')"
    by (simp add: insert_metrics_to_buffer_def)
  have m: "metrics_table example_client = table_M" by (simp add: example_client_def)
  have g: "dict_get (insert_buffer empty_world) table_M = []"
    by (simp add: empty_world_def dict_get_def)
  from metrics_duration_by_count[OF r]
  show ?thesis
    unfolding m g using r by auto
qed

text \<open>Claim C6 as stated fails for an item count of 0: the source takes
  \<^verbatim>\<open>max(item_count, 1)\<close>. A query that returned no row, recorded with the default batch
  size 1 after one second, gets 1000 milliseconds, not \<open>1 * 1000 * (0 / 1) = 0\<close>.\<close>

theorem metrics_zero_count_counterexample:
  "\<exists>w'. insert_metrics_to_buffer example_client example_env SELECT
           [(table_A, 0)] 1 1 empty_world = (Returned (), w')
      \<and> map duration_ms (dict_get (insert_buffer w') table_M) = [1000]
      \<and> (1000::real) \<noteq> 1 * 1000 * (real_of_int 0 / real_of_int 1)"
  by (simp add: insert_metrics_to_buffer_def example_client_def empty_world_def
      dict_get_def duration_ms_metrics_query)

section \<open>Facts about the flush loop\<close>

lemma with_metrics_Cons:
  "with_metrics mt ms (AList.update mt (dict_get buf mt @ [m]) buf) = with_metrics mt (m # ms) buf"
  by (simp add: with_metrics_def dict_get_update_same)

lemma with_metrics_empty_buffer:
  "with_metrics mt ms [] = (if ms = [] then [] else [(mt, ms)])"
  by (simp add: with_metrics_def dict_get_def)

lemma update_fresh_key: "k \<notin> fst ` set al \<Longrightarrow> AList.update k v al = al @ [(k, v)]"
  by (induction al) auto

lemma try_write_points_caught:
  "send_caught e (tbl, qs) \<Longrightarrow>
   try_write_points self e tbl qs w =
     (Returned (), w\<lparr>trace := trace w @ send_events self e (tbl, qs)\<rparr>)"
  by (auto simp: try_write_points_def send_caught_def send_events_def log_event_def Let_def
      split: option.splits)

lemma try_write_points_result:
  assumes "try_write_points self e tbl qs w = (r, w1)"
  shows "insert_buffer w1 = insert_buffer w"
    and "r = Returned () \<Longrightarrow> w1 = w\<lparr>trace := trace w @ send_events self e (tbl, qs)\<rparr>"
  using assms
  by (auto simp: try_write_points_def send_events_def log_event_def Let_def
      split: option.splits if_splits)

lemma insert_metrics_result:
  assumes "insert_metrics_to_buffer self e kw tcs d b w = (r, w2)"
  shows "r \<noteq> Returned () \<Longrightarrow> w2 = w"
    and "r = Returned () \<Longrightarrow>
         w2 = w\<lparr>insert_buffer := AList.update (metrics_table self)
                 (dict_get (insert_buffer w) (metrics_table self)
                    @ map (metrics_query self e kw d b) tcs) (insert_buffer w)\<rparr>"
  using assms by (auto simp: insert_metrics_to_buffer_def Let_def split: if_splits)

lemma send_insert_list_ok:
  "\<forall>x\<in>set xs. step_ok e x \<Longrightarrow>
   send_insert_list self e xs w =
     (Returned (),
      w\<lparr>insert_buffer := with_metrics (metrics_table self) (map (flush_metrics self e) xs) (insert_buffer w),
        trace := trace w @ concat (map (send_events self e) xs)\<rparr>)"
proof (induction xs arbitrary: w)
  case Nil
  then show ?case by (simp add: with_metrics_def)
next
  case (Cons x xs)
  obtain tbl qs where x: "x = (tbl, qs)" by (cases x)
  from Cons.prems have ok: "step_ok e (tbl, qs)" and rest: "\<forall>x\<in>set xs. step_ok e x"
    by (simp_all add: x)
  from ok have c: "send_caught e (tbl, qs)" and d: "0 < write_duration e tbl qs" and n: "qs \<noteq> []"
    by (simp_all add: step_ok_def)
  show ?case
    using n d
    by (simp add: x try_write_points_caught[OF c] insert_metrics_to_buffer_def Cons.IH[OF rest]
        with_metrics_Cons flush_metrics_def)
qed

lemma send_insert_list_append:
  "send_insert_list self e (xs @ ys) w =
     (case send_insert_list self e xs w of
        (Raised x, w1) \<Rightarrow> (Raised x, w1)
      | (Returned u, w1) \<Rightarrow> send_insert_list self e ys w1)"
  by (induction xs arbitrary: w) (auto split: prod.splits outcome.splits)

lemma send_insert_list_prefix:
  "send_insert_list self e xs w = (r, w') \<Longrightarrow>
   \<exists>k\<le>length xs.
     insert_buffer w' = with_metrics (metrics_table self) (map (flush_metrics self e) (take k xs)) (insert_buffer w)
     \<and> (r = Returned () \<longrightarrow> k = length xs \<and> trace w' = trace w @ concat (map (send_events self e) xs))"
proof (induction xs arbitrary: w)
  case Nil
  then show ?case by (simp add: with_metrics_def)
next
  case (Cons x xs)
  obtain tbl qs where x: "x = (tbl, qs)" by (cases x)
  obtain r1 w1 where t: "try_write_points self e tbl qs w = (r1, w1)" by fastforce
  note t1 = try_write_points_result[OF t]
  show ?case
  proof (cases "r1 = Returned ()")
    case False
    with Cons.prems t have "w' = w1" "r \<noteq> Returned ()"
      by (auto simp: x split: outcome.splits)
    with t1(1) show ?thesis
      by (intro exI[of _ 0]) (simp add: with_metrics_def)
  next
    case True
    note w1 = t1(2)[OF True]
    let ?n = "int (length qs)"
    obtain r2 w2 where m: "insert_metrics_to_buffer self e INSERT [(tbl, ?n)]
        (write_duration e tbl qs) ?n w1 = (r2, w2)" by fastforce
    note m1 = insert_metrics_result[OF m]
    show ?thesis
    proof (cases "r2 = Returned ()")
      case False
      with Cons.prems t True m have "w' = w2" "r \<noteq> Returned ()"
        by (auto simp: x split: outcome.splits)
      with m1(1)[OF False] w1 show ?thesis
        by (intro exI[of _ 0]) (simp add: with_metrics_def)
    next
      case r2: True
      from Cons.prems t True m r2 have rest: "send_insert_list self e xs w2 = (r, w')"
        by (simp add: x)
      from Cons.IH[OF rest] obtain k where k: "k \<le> length xs"
        and b: "insert_buffer w' = with_metrics (metrics_table self)
                  (map (flush_metrics self e) (take k xs)) (insert_buffer w2)"
        and tr: "r = Returned () \<longrightarrow> k = length xs \<and> trace w' = trace w2 @ concat (map (send_events self e) xs)"
        by blast
      have b2: "insert_buffer w2 = AList.update (metrics_table self)
                 (dict_get (insert_buffer w) (metrics_table self) @ [flush_metrics self e x]) (insert_buffer w)"
        by (simp add: m1(2)[OF r2] w1 flush_metrics_def x)
      have tr2: "trace w2 = trace w @ send_events self e x"
        by (simp add: m1(2)[OF r2] w1 x)
      show ?thesis
        using k b tr
        by (intro exI[of _ "Suc k"]) (simp add: b2 tr2 with_metrics_Cons)
    qed
  qed
qed

lemma length_insert_list_of: "length (insert_list_of e buf) = length buf"
  by (simp add: insert_list_of_def)

lemma insert_list_of_eq_Nil: "insert_list_of e buf = [] \<longleftrightarrow> buf = []"
  by (simp add: insert_list_of_def)

lemma flush_repeatedly_empty:
  "insert_buffer w = [] \<Longrightarrow> flush_repeatedly self es w = (Returned (), w)"
  by (induction es) (simp_all add: flush_insert_buffer_def)

lemma flush_all_steps_ok:
  assumes "insert_buffer w \<noteq> []"
    and "\<forall>x\<in>set (insert_list_of e (insert_buffer w)). step_ok e x"
  shows "flush_insert_buffer self e w =
      (Returned (),
       w\<lparr>insert_buffer :=
            [(metrics_table self, map (flush_metrics self e) (insert_list_of e (insert_buffer w)))],
         trace := trace w @ concat (map (send_events self e) (insert_list_of e (insert_buffer w)))\<rparr>)"
  using assms
  by (simp add: flush_insert_buffer_def send_insert_list_ok with_metrics_empty_buffer
      insert_list_of_eq_Nil)

lemma flush_metrics_fields:
  assumes "snd x \<noteq> []"
  shows "item_count (flush_metrics self e x) = int (length (snd x))"
    and "duration_ms (flush_metrics self e x) = write_duration e (fst x) (snd x) * 1000"
    and "map_of (iq_tags (flush_metrics self e x)) ''keyword'' = Some (Py_keyword INSERT)"
    and "map_of (iq_tags (flush_metrics self e x)) ''tableName'' = Some (Py_str (table_name (fst x)))"
    and "iq_table (flush_metrics self e x) = metrics_table self"
proof -
  from assms have m: "max (int (length (snd x))) 1 = int (length (snd x))"
    by (cases "snd x") simp_all
  show "item_count (flush_metrics self e x) = int (length (snd x))"
    by (simp add: flush_metrics_def item_count_metrics_query)
  show "duration_ms (flush_metrics self e x) = write_duration e (fst x) (snd x) * 1000"
    unfolding flush_metrics_def duration_ms_metrics_query snd_conv m using assms by simp
  show "map_of (iq_tags (flush_metrics self e x)) ''keyword'' = Some (Py_keyword INSERT)"
    by (simp add: flush_metrics_def metrics_query_def)
  show "map_of (iq_tags (flush_metrics self e x)) ''tableName'' = Some (Py_str (table_name (fst x)))"
    by (simp add: flush_metrics_def metrics_query_def)
  show "iq_table (flush_metrics self e x) = metrics_table self"
    by (simp add: flush_metrics_def metrics_query_def)
qed

lemma example_insert_list_AB:
  "insert_list_of server_error_env (insert_buffer world_AB) = [(table_A, [''A'']), (table_B, [''B''])]"
  by (simp add: insert_list_of_def world_AB_def server_error_env_def example_env_def query_of_def
      table_A_def table_B_def)

lemma A_neq_B: "table_A \<noteq> table_B"
  by (simp add: table_A_def table_B_def)

lemma flush_returned_buffer:
  assumes "insert_buffer w \<noteq> []" and "flush_insert_buffer self e w = (Returned (), w1)"
  shows "insert_buffer w1
     = [(metrics_table self, map (flush_metrics self e) (insert_list_of e (insert_buffer w)))]"
proof -
  from assms have "send_insert_list self e (insert_list_of e (insert_buffer w))
      (w\<lparr>insert_buffer := []\<rparr>) = (Returned (), w1)"
    by (simp add: flush_insert_buffer_def)
  from send_insert_list_prefix[OF this] assms(1) show ?thesis
    by (auto simp: with_metrics_empty_buffer insert_list_of_eq_Nil)
qed

lemma flush_repeatedly_never_empties:
  "insert_buffer w \<noteq> [] \<Longrightarrow> es \<noteq> [] \<Longrightarrow> flush_repeatedly self es w = (Returned (), w') \<Longrightarrow>
   \<exists>ms. insert_buffer w' = [(metrics_table self, ms)]
      \<and> length ms = (if length es = 1 then length (insert_buffer w) else 1)"
proof (induction es arbitrary: w)
  case Nil
  then show ?case by simp
next
  case (Cons e es)
  obtain r1 w1 where f: "flush_insert_buffer self e w = (r1, w1)" by fastforce
  with Cons.prems(3) have r1: "r1 = Returned ()"
    by (cases r1) simp_all
  note b1 = flush_returned_buffer[OF Cons.prems(1) f[unfolded r1]]
  show ?case
  proof (cases "es = []")
    case True
    with Cons.prems(3) f r1 have "w' = w1" by simp
    with b1 True show ?thesis by (simp add: length_insert_list_of)
  next
    case False
    from Cons.prems(3) f r1 have rest: "flush_repeatedly self es w1 = (Returned (), w')" by simp
    have ne1: "insert_buffer w1 \<noteq> []" by (simp add: b1)
    from Cons.IH[OF ne1 False rest] obtain ms where
      "insert_buffer w' = [(metrics_table self, ms)]"
      "length ms = (if length es = 1 then length (insert_buffer w1) else 1)" by blast
    with False show ?thesis by (auto simp: b1)
  qed
qed

lemma example_flush_twice:
  "flush_repeatedly example_client [example_env, example_env] world_A =
     (Returned (),
      \<lparr>insert_buffer =
         [(table_M, [flush_metrics example_client example_env (table_M, [''influx_metrics''])])],
       trace = [Write_points 0 ''db'' ''rp'' 10000 [''A''],
                Write_points 0 ''db'' ''rp'' 10000 [''influx_metrics'']]\<rparr>)"
proof -
  have c: "client example_client = 0" "database_name example_client = ''db''"
    "metrics_table example_client = table_M"
    "retention_policy_name table_A = ''rp''" "retention_policy_name table_M = ''rp''"
    "\<And>t ps. write_points example_env t ps = None"
    by (simp_all add: example_client_def table_A_def table_M_def example_env_def)
  have ok: "\<And>buf. \<forall>x\<in>set buf. snd x \<noteq> [] \<Longrightarrow>
      \<forall>x\<in>set (insert_list_of example_env buf). step_ok example_env x"
    by (auto simp: insert_list_of_def step_ok_def send_caught_def example_env_def)
  let ?m1 = "flush_metrics example_client example_env (table_A, [''A''])"
  let ?w1 = "\<lparr>insert_buffer = [(table_M, [?m1])],
              trace = [Write_points 0 ''db'' ''rp'' 10000 [''A'']]\<rparr>"
  have il1: "insert_list_of example_env (insert_buffer world_A) = [(table_A, [''A''])]"
    by (simp add: insert_list_of_def world_A_def example_env_def query_of_def table_A_def)
  have f1: "flush_insert_buffer example_client example_env world_A = (Returned (), ?w1)"
    using flush_all_steps_ok[of world_A example_env example_client] ok[of "insert_buffer world_A"]
    unfolding il1
    by (simp add: world_A_def c send_events_def query_max_batch_size_def)
  have q: "to_query example_env ?m1 = ''influx_metrics''"
    by (simp add: example_env_def flush_metrics_def metrics_query_def c table_M_def)
  have il2: "insert_list_of example_env (insert_buffer ?w1) = [(table_M, [''influx_metrics''])]"
    by (simp add: insert_list_of_def q)
  let ?w2 = "\<lparr>insert_buffer =
         [(table_M, [flush_metrics example_client example_env (table_M, [''influx_metrics''])])],
       trace = [Write_points 0 ''db'' ''rp'' 10000 [''A''],
                Write_points 0 ''db'' ''rp'' 10000 [''influx_metrics'']]\<rparr>"
  have f2: "flush_insert_buffer example_client example_env ?w1 = (Returned (), ?w2)"
    using flush_all_steps_ok[of ?w1 example_env example_client] ok[of "insert_buffer ?w1"]
    unfolding il2
    by (simp add: c send_events_def query_max_batch_size_def)
  show ?thesis
    by (simp add: f1 f2)
qed

section \<open>The flush\<close>

text \<open>
  Claim C1, as amended. \<^verbatim>\<open>flush_insert_buffer\<close> renders the whole buffer and clears it
  before the first write, so the metrics records of this flush go into the cleared
  buffer and are not sent by this flush. For a flush of a non-empty buffer: however the
  flush ends, the buffer afterwards holds nothing but metrics records of this flush,
  namely those of the first \<open>k\<close> tables of the snapshot, under the metrics table; and
  when the flush returns, it holds exactly one metrics record per table of the snapshot,
  in the order of the snapshot, and the driver was given exactly the rendered lines of
  the snapshot, one request per table. A flush of an empty buffer returns with the world
  unchanged: no request, no metrics record; so any number of flushes of an empty buffer
  with nothing ingested in between leave the buffer empty. Flushes of a non-empty buffer
  that are repeated with nothing ingested in between do not empty it, and do not let it
  grow: when they return, the buffer holds the metrics records of the last flush, which
  is one record from the second flush on.
\<close>

theorem flush_snapshot_then_clear:
  "(insert_buffer w \<noteq> [] \<and> flush_insert_buffer self e w = (r, w') \<longrightarrow>
      (\<exists>k\<le>length (insert_buffer w).
          insert_buffer w' =
            (if k = 0 then []
             else [(metrics_table self,
                    map (flush_metrics self e) (take k (insert_list_of e (insert_buffer w))))])
        \<and> (r = Returned () \<longrightarrow>
              insert_buffer w' =
                [(metrics_table self,
                  map (flush_metrics self e) (insert_list_of e (insert_buffer w)))]
            \<and> trace w' = trace w
                @ concat (map (send_events self e) (insert_list_of e (insert_buffer w))))))
   \<and> (insert_buffer w = [] \<longrightarrow>
        flush_insert_buffer self e w = (Returned (), w)
      \<and> flush_repeatedly self es w = (Returned (), w))
   \<and> (insert_buffer w \<noteq> [] \<and> es \<noteq> [] \<and> flush_repeatedly self es w = (Returned (), w'') \<longrightarrow>
        (\<exists>ms. insert_buffer w'' = [(metrics_table self, ms)]
           \<and> length ms = (if length es = 1 then length (insert_buffer w) else 1)))"
proof (intro conjI impI)
  assume a: "insert_buffer w \<noteq> [] \<and> flush_insert_buffer self e w = (r, w')"
  let ?xs = "insert_list_of e (insert_buffer w)"
  from a have s: "send_insert_list self e ?xs (w\<lparr>insert_buffer := []\<rparr>) = (r, w')"
    by (auto simp: flush_insert_buffer_def)
  from send_insert_list_prefix[OF s] obtain k where k: "k \<le> length ?xs"
    and b: "insert_buffer w' = with_metrics (metrics_table self)
              (map (flush_metrics self e) (take k ?xs)) []"
    and tr: "r = Returned () \<longrightarrow> k = length ?xs \<and> trace w' = trace w @ concat (map (send_events self e) ?xs)"
    by auto
  from a have ne: "insert_buffer w \<noteq> []" by simp
  show "\<exists>k\<le>length (insert_buffer w).
          insert_buffer w' =
            (if k = 0 then []
             else [(metrics_table self,
                    map (flush_metrics self e) (take k (insert_list_of e (insert_buffer w))))])
        \<and> (r = Returned () \<longrightarrow>
              insert_buffer w' =
                [(metrics_table self,
                  map (flush_metrics self e) (insert_list_of e (insert_buffer w)))]
            \<and> trace w' = trace w
                @ concat (map (send_events self e) (insert_list_of e (insert_buffer w))))"
    using k b tr ne
    by (intro exI[of _ k]) (auto simp: with_metrics_empty_buffer length_insert_list_of insert_list_of_eq_Nil)
next
  assume "insert_buffer w = []"
  then show "flush_insert_buffer self e w = (Returned (), w)"
    by (simp add: flush_insert_buffer_def)
next
  assume "insert_buffer w = []"
  then show "flush_repeatedly self es w = (Returned (), w)"
    by (rule flush_repeatedly_empty)
next
  assume "insert_buffer w \<noteq> [] \<and> es \<noteq> [] \<and> flush_repeatedly self es w = (Returned (), w'')"
  then show "\<exists>ms. insert_buffer w'' = [(metrics_table self, ms)]
           \<and> length ms = (if length es = 1 then length (insert_buffer w) else 1)"
    using flush_repeatedly_never_empties[of w es self w''] by blast
qed

text \<open>One query for table A is flushed: one request, one metrics record left behind.\<close>

theorem flush_snapshot_then_clear_witness:
  "flush_insert_buffer example_client example_env world_A =
     (Returned (),
      \<lparr>insert_buffer = [(table_M, [flush_metrics example_client example_env (table_A, [''A''])])],
       trace = [Write_points 0 ''db'' ''rp'' 10000 [''A'']]\<rparr>)
   \<and> flush_insert_buffer example_client example_env empty_world = (Returned (), empty_world)
   \<and> flush_repeatedly example_client [example_env, server_error_env] empty_world
       = (Returned (), empty_world)
   \<and> (\<exists>w'' ms. flush_repeatedly example_client [example_env, example_env] world_A
                   = (Returned (), w'')
         \<and> insert_buffer w'' = [(table_M, ms)] \<and> length ms = 1)"
proof -
  have il: "insert_list_of example_env (insert_buffer world_A) = [(table_A, [''A''])]"
    by (simp add: insert_list_of_def world_A_def example_env_def query_of_def table_A_def)
  have ne: "insert_buffer world_A \<noteq> []" by (simp add: world_A_def)
  have e: "insert_buffer empty_world = []" by (simp add: empty_world_def)
  obtain r w' where f: "flush_insert_buffer example_client example_env world_A = (r, w')"
    by fastforce
  have ok: "\<forall>x\<in>set (insert_list_of example_env (insert_buffer world_A)). step_ok example_env x"
    unfolding il by (simp add: step_ok_def send_caught_def example_env_def)
  have r: "r = Returned ()"
    using f flush_all_steps_ok[OF ne ok, of example_client] by simp
  have c: "client example_client = 0" "database_name example_client = ''db''"
    "metrics_table example_client = table_M" "retention_policy_name table_A = ''rp''"
    "write_points example_env table_A [''A''] = None"
    by (simp_all add: example_client_def table_A_def example_env_def)
  have t: "trace world_A = []" by (simp add: world_A_def)
  from flush_snapshot_then_clear[of world_A example_client example_env r w' "[]"] f r ne
  have A: "insert_buffer w' = [(table_M, [flush_metrics example_client example_env (table_A, [''A''])])]
      \<and> trace w' = [Write_points 0 ''db'' ''rp'' 10000 [''A'']]"
    by (auto simp: il c t send_events_def query_max_batch_size_def)
  from flush_snapshot_then_clear[of empty_world example_client example_env r w'
      "[example_env, server_error_env]"] e
  have B: "flush_insert_buffer example_client example_env empty_world = (Returned (), empty_world)
      \<and> flush_repeatedly example_client [example_env, server_error_env] empty_world
           = (Returned (), empty_world)"
    by blast
  from A B have "insert_buffer w' = [(table_M, [flush_metrics example_client example_env (table_A, [''A''])])]
      \<and> trace w' = [Write_points 0 ''db'' ''rp'' 10000 [''A'']]
      \<and> flush_insert_buffer example_client example_env empty_world = (Returned (), empty_world)
      \<and> flush_repeatedly example_client [example_env, server_error_env] empty_world
           = (Returned (), empty_world)"
    by blast
  then have AB: "flush_insert_buffer example_client example_env world_A =
     (Returned (),
      \<lparr>insert_buffer = [(table_M, [flush_metrics example_client example_env (table_A, [''A''])])],
       trace = [Write_points 0 ''db'' ''rp'' 10000 [''A'']]\<rparr>)
   \<and> flush_insert_buffer example_client example_env empty_world = (Returned (), empty_world)
   \<and> flush_repeatedly example_client [example_env, server_error_env] empty_world
       = (Returned (), empty_world)"
    using f r by (cases w') (simp del: flush_repeatedly.simps)
  obtain w'' where f2: "flush_repeatedly example_client [example_env, example_env] world_A
      = (Returned (), w'')"
    using example_flush_twice by blast
  from flush_snapshot_then_clear[of world_A example_client example_env r w'
      "[example_env, example_env]" w''] ne f2
  have "\<exists>ms. insert_buffer w'' = [(table_M, ms)] \<and> length ms = 1"
    by (simp add: c del: flush_repeatedly.simps)
  with f2 have C: "\<exists>w'' ms. flush_repeatedly example_client [example_env, example_env] world_A
                   = (Returned (), w'')
         \<and> insert_buffer w'' = [(table_M, ms)] \<and> length ms = 1"
    by blast
  from AB C show ?thesis by blast
qed


text \<open>Claim C1 as stated fails where it lets repeated flushes end with an empty buffer:
  every flush that sends something records a metrics record about it. After one query
  for table A, a first flush leaves the metrics record of A, and a second flush sends
  that record and leaves a metrics record of its own.\<close>

theorem repeated_flush_keeps_metrics_counterexample:
  "flush_repeatedly example_client [example_env, example_env] world_A =
     (Returned (),
      \<lparr>insert_buffer =
         [(table_M, [flush_metrics example_client example_env (table_M, [''influx_metrics''])])],
       trace = [Write_points 0 ''db'' ''rp'' 10000 [''A''],
                Write_points 0 ''db'' ''rp'' 10000 [''influx_metrics'']]\<rparr>)
   \<and> [(table_M, [flush_metrics example_client example_env (table_M, [''influx_metrics''])])] \<noteq> []"
  using example_flush_twice by (simp del: flush_repeatedly.simps)

text \<open>
  Claim C2, as amended. In a flush where every table of the buffer has at least one
  line, every measured duration is positive and every write either succeeds or raises
  \<^verbatim>\<open>InfluxDBServerError\<close> or \<^verbatim>\<open>InfluxDBClientError\<close>, the flush returns; every table's
  batch is submitted, in order, whether earlier ones failed or not, a failure being
  passed to \<^verbatim>\<open>exception_info\<close>; and for every table one metrics record is appended, with
  keyword \<^verbatim>\<open>INSERT\<close>, the table's name, the table's line count and the measured duration
  (in milliseconds).
\<close>

theorem flush_isolates_caught_errors:
  assumes "insert_buffer w \<noteq> []"
    and "\<forall>x\<in>set (insert_list_of e (insert_buffer w)). step_ok e x"
  shows "flush_insert_buffer self e w =
      (Returned (),
       w\<lparr>insert_buffer :=
            [(metrics_table self, map (flush_metrics self e) (insert_list_of e (insert_buffer w)))],
         trace := trace w @ concat (map (send_events self e) (insert_list_of e (insert_buffer w)))\<rparr>)
    \<and> (\<forall>x\<in>set (insert_list_of e (insert_buffer w)).
          item_count (flush_metrics self e x) = int (length (snd x))
        \<and> duration_ms (flush_metrics self e x) = write_duration e (fst x) (snd x) * 1000
        \<and> map_of (iq_tags (flush_metrics self e x)) ''keyword'' = Some (Py_keyword INSERT)
        \<and> map_of (iq_tags (flush_metrics self e x)) ''tableName''
            = Some (Py_str (table_name (fst x))))"
proof (intro conjI ballI)
  show "flush_insert_buffer self e w =
      (Returned (),
       w\<lparr>insert_buffer :=
            [(metrics_table self, map (flush_metrics self e) (insert_list_of e (insert_buffer w)))],
         trace := trace w @ concat (map (send_events self e) (insert_list_of e (insert_buffer w)))\<rparr>)"
    using assms by (rule flush_all_steps_ok)
next
  fix x assume "x \<in> set (insert_list_of e (insert_buffer w))"
  with assms(2) have n: "snd x \<noteq> []" by (simp add: step_ok_def)
  note f = flush_metrics_fields[OF n, of self e]
  show "item_count (flush_metrics self e x) = int (length (snd x))" by (rule f)
  show "duration_ms (flush_metrics self e x) = write_duration e (fst x) (snd x) * 1000" by (rule f)
  show "map_of (iq_tags (flush_metrics self e x)) ''keyword'' = Some (Py_keyword INSERT)" by (rule f)
  show "map_of (iq_tags (flush_metrics self e x)) ''tableName'' = Some (Py_str (table_name (fst x)))"
    by (rule f)
qed

text \<open>The server rejects the batch of table A; the batch of table B is still sent and
  both tables get their metrics record.\<close>

theorem flush_isolates_caught_errors_witness:
  "flush_insert_buffer example_client server_error_env world_AB =
     (Returned (),
      \<lparr>insert_buffer =
         [(table_M, [flush_metrics example_client server_error_env (table_A, [''A'']),
                     flush_metrics example_client server_error_env (table_B, [''B''])])],
       trace =
         [Write_points 0 ''db'' ''rp'' 10000 [''A''],
          Exception_info (DriverError InfluxDBServerError),
          Write_points 0 ''db'' ''rp'' 10000 [''B'']]\<rparr>)
   \<and> item_count (flush_metrics example_client server_error_env (table_A, [''A''])) = 1
   \<and> duration_ms (flush_metrics example_client server_error_env (table_A, [''A''])) = 1000"
proof -
  have ne: "insert_buffer world_AB \<noteq> []" by (simp add: world_AB_def)
  have ok: "\<forall>x\<in>set (insert_list_of server_error_env (insert_buffer world_AB)). step_ok server_error_env x"
    unfolding example_insert_list_AB
    by (simp add: step_ok_def send_caught_def server_error_env_def example_env_def
        caught_influx_error_def A_neq_B[symmetric])
  have wp: "write_points server_error_env table_A [''A''] = Some InfluxDBServerError"
    "write_points server_error_env table_B [''B''] = None"
    "write_duration server_error_env table_A [''A''] = 1"
    by (simp_all add: server_error_env_def example_env_def A_neq_B[symmetric])
  have c: "client example_client = 0" "database_name example_client = ''db''"
    "metrics_table example_client = table_M"
    "retention_policy_name table_A = ''rp''" "retention_policy_name table_B = ''rp''"
    by (simp_all add: example_client_def table_A_def table_B_def)
  from flush_isolates_caught_errors[OF ne ok, of example_client]
  show ?thesis
    unfolding example_insert_list_AB
    by (simp add: send_events_def wp c query_max_batch_size_def world_AB_def)
qed

text \<open>Claim C2 as stated fails for a failure that the handler does not catch: when the
  connection drops while table A is written, the flush raises, the batch of table B is
  never submitted, no metrics record is appended, and the queries of both tables are
  gone from the buffer.\<close>

theorem flush_connection_error_counterexample:
  "flush_insert_buffer example_client connection_error_env world_AB =
     (Raised (DriverError ConnectionError),
      \<lparr>insert_buffer = [], trace = [Write_points 0 ''db'' ''rp'' 10000 [''A'']]\<rparr>)"
  by (simp add: flush_insert_buffer_def world_AB_def insert_list_of_def try_write_points_def
      connection_error_env_def example_env_def example_client_def log_event_def
      caught_influx_error_def query_of_def table_A_def query_max_batch_size_def)

section \<open>Ingestion\<close>

lemma generate_queries_all_skipped:
  "\<forall>d\<in>set dicts. split_by_table_def e tbl d = None \<Longrightarrow> generate_queries e tbl dicts = []"
  by (induction dicts) simp_all

lemma dict_get_fresh_key: "k \<notin> fst ` set d \<Longrightarrow> dict_get d k = []"
  using map_of_eq_None_iff[of d k] by (simp add: dict_get_def)

lemma insert_dicts_to_buffer_unfold:
  assumes "tname \<noteq> []" and "dicts \<noteq> []"
  shows "insert_dicts_to_buffer self e (Some tname) (Some dicts) w =
     (if 5 * query_max_batch_size < pending self tname (appended self e tname dicts w)
      then flush_insert_buffer self e (appended self e tname dicts w)
      else (Returned (), appended self e tname dicts w))"
  using assms by (simp add: insert_dicts_to_buffer_def appended_def pending_def Let_def)

lemma send_empty_table_raises:
  assumes "send_caught e (tbl, [])" and "0 < write_duration e tbl []"
  shows "send_insert_list self e ((tbl, []) # rest) w =
     (Raised (ValueError Batch_size_not_positive),
      w\<lparr>trace := trace w @ send_events self e (tbl, [])\<rparr>)"
  using assms(2)
  by (simp add: try_write_points_caught[OF assms(1)] insert_metrics_to_buffer_def)

text \<open>Ingestion of dicts that all fail classification appends the table with an
  empty list; and a flush whose earlier steps go through, whose empty write is caught and
  takes positive time, raises the \<^verbatim>\<open>ValueError\<close> of the check \<^verbatim>\<open>batch_size < 1\<close>.\<close>

lemma empty_table_reached_and_raises:
  "(tname \<noteq> [] \<and> dicts \<noteq> []
      \<and> (\<forall>d\<in>set dicts. split_by_table_def e (database_tables self tname) d = None)
      \<and> \<not> buffered w (database_tables self tname) \<longrightarrow>
      insert_dicts_to_buffer self e (Some tname) (Some dicts) w =
        (Returned (), w\<lparr>insert_buffer := insert_buffer w @ [(database_tables self tname, [])]\<rparr>))
   \<and> (insert_buffer w = pre @ (tbl, []) # post
      \<and> (\<forall>x\<in>set (insert_list_of e pre). step_ok e x)
      \<and> send_caught e (tbl, []) \<and> 0 < write_duration e tbl [] \<longrightarrow>
      flush_insert_buffer self e w =
        (Raised (ValueError Batch_size_not_positive),
         w\<lparr>insert_buffer :=
              (if pre = [] then []
               else [(metrics_table self, map (flush_metrics self e) (insert_list_of e pre))]),
           trace := trace w @ concat (map (send_events self e) (insert_list_of e pre))
                      @ send_events self e (tbl, [])\<rparr>))"
proof (intro conjI impI)
  assume a: "tname \<noteq> [] \<and> dicts \<noteq> []
      \<and> (\<forall>d\<in>set dicts. split_by_table_def e (database_tables self tname) d = None)
      \<and> \<not> buffered w (database_tables self tname)"
  let ?tbl = "database_tables self tname"
  from a have g: "generate_queries e ?tbl dicts = []"
    by (simp add: generate_queries_all_skipped)
  from a have fresh: "?tbl \<notin> fst ` set (insert_buffer w)" by (simp add: buffered_def)
  have ap: "appended self e tname dicts w = w\<lparr>insert_buffer := insert_buffer w @ [(?tbl, [])]\<rparr>"
    by (simp add: appended_def g dict_get_fresh_key[OF fresh] update_fresh_key[OF fresh])
  have p: "pending self tname (appended self e tname dicts w) = 0"
    by (simp add: pending_def appended_def dict_get_update_same g dict_get_fresh_key[OF fresh])
  from a have "insert_dicts_to_buffer self e (Some tname) (Some dicts) w =
        (Returned (), appended self e tname dicts w)"
    by (simp add: insert_dicts_to_buffer_unfold p)
  then show "insert_dicts_to_buffer self e (Some tname) (Some dicts) w =
        (Returned (), w\<lparr>insert_buffer := insert_buffer w @ [(?tbl, [])]\<rparr>)"
    by (simp only: ap)
next
  assume a: "insert_buffer w = pre @ (tbl, []) # post
      \<and> (\<forall>x\<in>set (insert_list_of e pre). step_ok e x)
      \<and> send_caught e (tbl, []) \<and> 0 < write_duration e tbl []"
  then have il: "insert_list_of e (insert_buffer w)
      = insert_list_of e pre @ (tbl, []) # insert_list_of e post"
    by (simp add: insert_list_of_def)
  from a have ok: "\<forall>x\<in>set (insert_list_of e pre). step_ok e x"
    and c: "send_caught e (tbl, [])" and d: "0 < write_duration e tbl []" by simp_all
  from a have ne: "insert_buffer w \<noteq> []" by simp
  let ?pre = "insert_list_of e pre"
  let ?w0 = "w\<lparr>insert_buffer := []\<rparr>"
  let ?w1 = "?w0\<lparr>insert_buffer :=
                 with_metrics (metrics_table self) (map (flush_metrics self e) ?pre) (insert_buffer ?w0),
               trace := trace ?w0 @ concat (map (send_events self e) ?pre)\<rparr>"
  have "flush_insert_buffer self e w
      = send_insert_list self e (?pre @ (tbl, []) # insert_list_of e post) ?w0"
    using ne by (simp add: flush_insert_buffer_def il)
  also have "\<dots> = send_insert_list self e ((tbl, []) # insert_list_of e post) ?w1"
    by (simp only: send_insert_list_append send_insert_list_ok[OF ok] prod.case outcome.case)
  also have "\<dots> = (Raised (ValueError Batch_size_not_positive),
                    ?w1\<lparr>trace := trace ?w1 @ send_events self e (tbl, [])\<rparr>)"
    by (rule send_empty_table_raises[OF c d])
  also have "\<dots> = (Raised (ValueError Batch_size_not_positive),
         w\<lparr>insert_buffer :=
              (if pre = [] then []
               else [(metrics_table self, map (flush_metrics self e) (insert_list_of e pre))]),
           trace := trace w @ concat (map (send_events self e) (insert_list_of e pre))
                      @ send_events self e (tbl, [])\<rparr>)"
    by (simp add: with_metrics_empty_buffer insert_list_of_eq_Nil)
  finally show "flush_insert_buffer self e w =
        (Raised (ValueError Batch_size_not_positive),
         w\<lparr>insert_buffer :=
              (if pre = [] then []
               else [(metrics_table self, map (flush_metrics self e) (insert_list_of e pre))]),
           trace := trace w @ concat (map (send_events self e) (insert_list_of e pre))
                      @ send_events self e (tbl, [])\<rparr>)" .
qed

text \<open>What a flush writes, whatever the driver and the clock do: the requests for a
  prefix of its insert list, in order, and for the whole list if it returns.\<close>

lemma try_write_points_writes:
  assumes "try_write_points self e tbl qs w = (r, w1)"
  shows "filter is_write (trace w1) = filter is_write (trace w) @ [write_event self (tbl, qs)]"
  using assms
  by (auto simp: try_write_points_def log_event_def Let_def is_write_def write_event_def
      split: option.splits if_splits)

lemma insert_metrics_trace:
  "insert_metrics_to_buffer self e kw tcs d b w = (r, w2) \<Longrightarrow> trace w2 = trace w"
  by (auto simp: insert_metrics_to_buffer_def Let_def split: if_splits)

lemma send_insert_list_writes:
  "send_insert_list self e xs w = (r, w') \<Longrightarrow>
   \<exists>k\<le>length xs.
     filter is_write (trace w') = filter is_write (trace w) @ map (write_event self) (take k xs)
     \<and> (r = Returned () \<longrightarrow> k = length xs)"
proof (induction xs arbitrary: w)
  case Nil
  then show ?case by simp
next
  case (Cons x xs)
  obtain tbl qs where x: "x = (tbl, qs)" by (cases x)
  obtain r1 w1 where t: "try_write_points self e tbl qs w = (r1, w1)" by fastforce
  note t1 = try_write_points_writes[OF t]
  show ?case
  proof (cases "r1 = Returned ()")
    case False
    with Cons.prems t have "w' = w1" "r \<noteq> Returned ()"
      by (auto simp: x split: outcome.splits)
    with t1 show ?thesis
      by (intro exI[of _ "Suc 0"]) (simp add: x)
  next
    case True
    let ?n = "int (length qs)"
    obtain r2 w2 where m: "insert_metrics_to_buffer self e INSERT [(tbl, ?n)]
        (write_duration e tbl qs) ?n w1 = (r2, w2)" by fastforce
    note m1 = insert_metrics_trace[OF m]
    show ?thesis
    proof (cases "r2 = Returned ()")
      case False
      with Cons.prems t True m have "w' = w2" "r \<noteq> Returned ()"
        by (auto simp: x split: outcome.splits)
      with t1 m1 show ?thesis
        by (intro exI[of _ "Suc 0"]) (simp add: x)
    next
      case r2: True
      from Cons.prems t True m r2 have rest: "send_insert_list self e xs w2 = (r, w')"
        by (simp add: x)
      from Cons.IH[OF rest] obtain k where "k \<le> length xs"
        "filter is_write (trace w') = filter is_write (trace w2) @ map (write_event self) (take k xs)"
        "r = Returned () \<longrightarrow> k = length xs" by blast
      with t1 m1 show ?thesis
        by (intro exI[of _ "Suc k"]) (simp add: x)
    qed
  qed
qed

lemma send_empty_table_never_returns:
  assumes "send_insert_list self e ((tbl, []) # post) w = (r, w')"
  shows "r \<noteq> Returned ()"
    and "filter is_write (trace w') = filter is_write (trace w) @ [write_event self (tbl, [])]"
    and "insert_buffer w' = insert_buffer w"
proof -
  obtain r1 w1 where t: "try_write_points self e tbl [] w = (r1, w1)" by fastforce
  note tw = try_write_points_writes[OF t]
  note tb = try_write_points_result(1)[OF t]
  have "r \<noteq> Returned () \<and> w' = w1"
  proof (cases "r1 = Returned ()")
    case False
    with assms t show ?thesis by (auto split: outcome.splits)
  next
    case True
    with assms t show ?thesis
      by (auto simp: insert_metrics_to_buffer_def split: if_splits)
  qed
  with tw tb show "r \<noteq> Returned ()"
    and "filter is_write (trace w') = filter is_write (trace w) @ [write_event self (tbl, [])]"
    and "insert_buffer w' = insert_buffer w"
    by simp_all
qed

lemma flush_with_empty_table_never_returns:
  assumes "insert_buffer w = pre @ (tbl, []) # post"
    and "flush_insert_buffer self e w = (r, w')"
  shows "r \<noteq> Returned ()"
    and "\<exists>k\<le>Suc (length pre).
           filter is_write (trace w') = filter is_write (trace w)
             @ map (write_event self) (take k (insert_list_of e (insert_buffer w)))"
    and "\<exists>j\<le>length pre.
           insert_buffer w' =
             (if j = 0 then []
              else [(metrics_table self, map (flush_metrics self e) (take j (insert_list_of e pre)))])"
proof -
  let ?P = "insert_list_of e pre"
  let ?Q = "insert_list_of e post"
  let ?w0 = "w\<lparr>insert_buffer := []\<rparr>"
  have il: "insert_list_of e (insert_buffer w) = ?P @ (tbl, []) # ?Q"
    by (simp add: assms(1) insert_list_of_def)
  have lP: "length ?P = length pre" by (rule length_insert_list_of)
  have ne: "insert_buffer w \<noteq> []" by (simp add: assms(1))
  from assms(2) have s: "send_insert_list self e (?P @ (tbl, []) # ?Q) ?w0 = (r, w')"
    unfolding flush_insert_buffer_def il by (simp only: ne if_False)
  obtain r1 w1 where p: "send_insert_list self e ?P ?w0 = (r1, w1)" by fastforce
  from send_insert_list_writes[OF p] obtain k where k: "k \<le> length ?P"
    and kw: "filter is_write (trace w1) = filter is_write (trace w) @ map (write_event self) (take k ?P)"
    and kr: "r1 = Returned () \<longrightarrow> k = length ?P" by auto
  from send_insert_list_prefix[OF p] obtain j where j: "j \<le> length ?P"
    and jb: "insert_buffer w1 = with_metrics (metrics_table self)
               (map (flush_metrics self e) (take j ?P)) []"
    by auto
  have "r \<noteq> Returned ()
      \<and> (\<exists>k\<le>Suc (length pre).
           filter is_write (trace w') = filter is_write (trace w)
             @ map (write_event self) (take k (?P @ (tbl, []) # ?Q)))
      \<and> insert_buffer w' = insert_buffer w1"
  proof (cases "r1 = Returned ()")
    case False
    with s p have "r = r1" "w' = w1"
      by (auto simp: send_insert_list_append split: outcome.splits)
    with False k kw lP show ?thesis
      by (intro conjI exI[of _ k]) simp_all
  next
    case True
    with s p have e: "send_insert_list self e ((tbl, []) # ?Q) w1 = (r, w')"
      by (simp add: send_insert_list_append)
    note n = send_empty_table_never_returns[OF e]
    from kr True have "k = length ?P" by simp
    with n kw lP show ?thesis
      by (intro conjI exI[of _ "Suc (length pre)"]) simp_all
  qed
  then show "r \<noteq> Returned ()"
    and "\<exists>k\<le>Suc (length pre).
           filter is_write (trace w') = filter is_write (trace w)
             @ map (write_event self) (take k (insert_list_of e (insert_buffer w)))"
    and "\<exists>j\<le>length pre.
           insert_buffer w' =
             (if j = 0 then []
              else [(metrics_table self, map (flush_metrics self e) (take j (insert_list_of e pre)))])"
    using j jb lP unfolding il
    by (auto simp: with_metrics_empty_buffer)
qed

text \<open>
  Claim C9, as amended. First, the state is reachable: when \<^verbatim>\<open>insert_dicts_to_buffer\<close> is
  called for a table that is not yet a key of the buffer, with a non-empty list of dicts
  that all fail classification, it returns normally and has appended the table to the
  buffer with an empty list. Second, whenever the buffer holds a table with an empty list,
  the next flush never completes, whatever the driver and the clock do: it raises; it
  writes at most the tables before the empty one and the empty batch itself, so no table
  after it is submitted; and the buffer it leaves holds nothing but metrics records of
  tables before the empty one, the queries of all tables being gone. Third, the exception
  is the \<^verbatim>\<open>ValueError\<close> of the metrics recorder's check \<^verbatim>\<open>batch_size < 1\<close> when the steps
  of the tables before the empty one go through, the send of the empty batch succeeds or
  raises an error that the handler catches, and its measured duration is positive.
\<close>

theorem flush_raises_on_empty_table:
  "(tname \<noteq> [] \<and> dicts \<noteq> []
      \<and> (\<forall>d\<in>set dicts. split_by_table_def e (database_tables self tname) d = None)
      \<and> database_tables self tname \<notin> fst ` set (insert_buffer w) \<longrightarrow>
      insert_dicts_to_buffer self e (Some tname) (Some dicts) w =
        (Returned (), w\<lparr>insert_buffer := insert_buffer w @ [(database_tables self tname, [])]\<rparr>))
   \<and> (insert_buffer w = pre @ (tbl, []) # post \<and> flush_insert_buffer self e w = (r, w') \<longrightarrow>
        r \<noteq> Returned ()
      \<and> (\<exists>k\<le>Suc (length pre).
            filter is_write (trace w') = filter is_write (trace w)
              @ map (write_event self) (take k (insert_list_of e (insert_buffer w))))
      \<and> (\<exists>j\<le>length pre.
            insert_buffer w' =
              (if j = 0 then []
               else [(metrics_table self,
                      map (flush_metrics self e) (take j (insert_list_of e pre)))])))
   \<and> (insert_buffer w = pre @ (tbl, []) # post
      \<and> (\<forall>x\<in>set (insert_list_of e pre). step_ok e x)
      \<and> send_caught e (tbl, []) \<and> 0 < write_duration e tbl [] \<longrightarrow>
      flush_insert_buffer self e w =
        (Raised (ValueError Batch_size_not_positive),
         w\<lparr>insert_buffer :=
              (if pre = [] then []
               else [(metrics_table self, map (flush_metrics self e) (insert_list_of e pre))]),
           trace := trace w @ concat (map (send_events self e) (insert_list_of e pre))
                      @ send_events self e (tbl, [])\<rparr>))"
proof (intro conjI impI)
  assume "tname \<noteq> [] \<and> dicts \<noteq> []
      \<and> (\<forall>d\<in>set dicts. split_by_table_def e (database_tables self tname) d = None)
      \<and> database_tables self tname \<notin> fst ` set (insert_buffer w)"
  then show "insert_dicts_to_buffer self e (Some tname) (Some dicts) w =
        (Returned (), w\<lparr>insert_buffer := insert_buffer w @ [(database_tables self tname, [])]\<rparr>)"
    using empty_table_reached_and_raises[of tname dicts e self w] by (simp add: buffered_def)
next
  assume a: "insert_buffer w = pre @ (tbl, []) # post \<and> flush_insert_buffer self e w = (r, w')"
  then have 1: "insert_buffer w = pre @ (tbl, []) # post"
    and 2: "flush_insert_buffer self e w = (r, w')" by simp_all
  note n = flush_with_empty_table_never_returns[OF 1 2]
  show "r \<noteq> Returned ()" by (rule n(1))
  show "\<exists>k\<le>Suc (length pre).
            filter is_write (trace w') = filter is_write (trace w)
              @ map (write_event self) (take k (insert_list_of e (insert_buffer w)))"
    by (rule n(2))
  show "\<exists>j\<le>length pre.
            insert_buffer w' =
              (if j = 0 then []
               else [(metrics_table self,
                      map (flush_metrics self e) (take j (insert_list_of e pre)))])"
    by (rule n(3))
next
  assume "insert_buffer w = pre @ (tbl, []) # post
      \<and> (\<forall>x\<in>set (insert_list_of e pre). step_ok e x)
      \<and> send_caught e (tbl, []) \<and> 0 < write_duration e tbl []"
  then show "flush_insert_buffer self e w =
        (Raised (ValueError Batch_size_not_positive),
         w\<lparr>insert_buffer :=
              (if pre = [] then []
               else [(metrics_table self, map (flush_metrics self e) (insert_list_of e pre))]),
           trace := trace w @ concat (map (send_events self e) (insert_list_of e pre))
                      @ send_events self e (tbl, [])\<rparr>)"
    using empty_table_reached_and_raises[of tname dicts e self w pre tbl post] by blast
qed

text \<open>A single dict that fails classification leaves table A with an empty list; a
  flush of a buffer with the empty table A before table B raises after the empty write
  for A, and B is never written, also when the connection drops at the write for A.\<close>

theorem flush_raises_on_empty_table_witness:
  "insert_dicts_to_buffer example_client example_env (Some ''A'') (Some [[]]) empty_world =
     (Returned (), world_empty_A)
   \<and> flush_insert_buffer example_client example_env world_empty_A_then_B =
     (Raised (ValueError Batch_size_not_positive),
      \<lparr>insert_buffer = [], trace = [Write_points 0 ''db'' ''rp'' 10000 []]\<rparr>)
   \<and> (\<exists>r w'. flush_insert_buffer example_client connection_error_env world_empty_A_then_B = (r, w')
         \<and> r \<noteq> Returned ()
         \<and> length (filter is_write (trace w')) \<le> 1
         \<and> insert_buffer w' = [])"
proof -
  have t: "database_tables example_client ''A'' = table_A"
    by (simp add: example_client_def table_A_def)
  have 1: "''A'' \<noteq> [] \<and> [[]] \<noteq> ([] :: py_dict list)
      \<and> (\<forall>d\<in>set [[]]. split_by_table_def example_env (database_tables example_client ''A'') d = None)
      \<and> database_tables example_client ''A'' \<notin> fst ` set (insert_buffer empty_world)"
    by (simp add: example_env_def empty_world_def)
  have 2: "insert_buffer world_empty_A_then_B = [] @ (table_A, []) # [(table_B, [query_of table_B])]
      \<and> (\<forall>x\<in>set (insert_list_of example_env []). step_ok example_env x)
      \<and> send_caught example_env (table_A, []) \<and> 0 < write_duration example_env table_A []"
    by (simp add: world_empty_A_then_B_def insert_list_of_def send_caught_def example_env_def)
  have c: "client example_client = 0" "database_name example_client = ''db''"
    "retention_policy_name table_A = ''rp''" "write_points example_env table_A [] = None"
    by (simp_all add: example_client_def table_A_def example_env_def)
  from flush_raises_on_empty_table[of "''A''" "[[]]" example_env example_client empty_world] 1
  have A: "insert_dicts_to_buffer example_client example_env (Some ''A'') (Some [[]]) empty_world =
     (Returned (), world_empty_A)"
    by (simp add: t empty_world_def world_empty_A_def)
  from flush_raises_on_empty_table[of "''A''" "[[]]" example_env example_client
      world_empty_A_then_B "[]" table_A "[(table_B, [query_of table_B])]"] 2
  have B: "flush_insert_buffer example_client example_env world_empty_A_then_B =
     (Raised (ValueError Batch_size_not_positive),
      \<lparr>insert_buffer = [], trace = [Write_points 0 ''db'' ''rp'' 10000 []]\<rparr>)"
    by (simp add: c send_events_def insert_list_of_def query_max_batch_size_def
        world_empty_A_then_B_def)
  obtain r w' where f: "flush_insert_buffer example_client connection_error_env
      world_empty_A_then_B = (r, w')" by fastforce
  have 3: "insert_buffer world_empty_A_then_B = [] @ (table_A, []) # [(table_B, [query_of table_B])]"
    by (simp add: world_empty_A_then_B_def)
  have tr: "trace world_empty_A_then_B = []" by (simp add: world_empty_A_then_B_def)
  from flush_raises_on_empty_table[of "''A''" "[[]]" connection_error_env example_client
      world_empty_A_then_B "[]" table_A "[(table_B, [query_of table_B])]" r w'] 3 f
  have "r \<noteq> Returned ()
      \<and> (\<exists>k\<le>Suc 0. filter is_write (trace w') = filter is_write (trace world_empty_A_then_B)
              @ map (write_event example_client)
                  (take k (insert_list_of connection_error_env (insert_buffer world_empty_A_then_B))))
      \<and> insert_buffer w' = []"
    by auto
  then have C: "r \<noteq> Returned () \<and> length (filter is_write (trace w')) \<le> 1 \<and> insert_buffer w' = []"
    by (auto simp: tr)
  from A B C f show ?thesis by blast
qed

text \<open>Claim C9 as stated fails where it names the exception: when the connection drops
  while the empty batch is written, the flush raises that \<^verbatim>\<open>ConnectionError\<close>, which the
  handler does not catch, and the metrics recorder is never called.\<close>

theorem flush_empty_table_connection_error_counterexample:
  "insert_buffer world_empty_A_then_B = [(table_A, []), (table_B, [query_of table_B])]
   \<and> flush_insert_buffer example_client connection_error_env world_empty_A_then_B =
       (Raised (DriverError ConnectionError),
        \<lparr>insert_buffer = [], trace = [Write_points 0 ''db'' ''rp'' 10000 []]\<rparr>)"
  by (simp add: flush_insert_buffer_def world_empty_A_then_B_def insert_list_of_def
      try_write_points_def connection_error_env_def example_env_def example_client_def
      log_event_def caught_influx_error_def table_A_def query_max_batch_size_def)

lemma threshold_value: "5 * query_max_batch_size = 50000"
  by (simp add: query_max_batch_size_def)

text \<open>
  Claim C3, as amended. For a call of \<^verbatim>\<open>insert_dicts_to_buffer\<close> with a table name and a
  non-empty list of dicts: when the number of queries pending for the table after the
  append is at most \<open>5 * 10000 = 50000\<close>, the call returns without any request to the
  driver, the buffer holding the appended queries; when it is greater than 50000, the
  call is one full flush of the buffer after the append, run before the call returns:
  its outcome is the outcome of that flush, and when every step of the flush goes
  through, every table of the buffer is written exactly once and only the metrics of
  this flush remain.
\<close>

theorem implicit_flush_above_threshold:
  assumes "tname \<noteq> []" and "dicts \<noteq> []"
  shows "(pending self tname (appended self e tname dicts w) \<le> 5 * query_max_batch_size \<longrightarrow>
            insert_dicts_to_buffer self e (Some tname) (Some dicts) w
              = (Returned (), appended self e tname dicts w)
          \<and> trace (appended self e tname dicts w) = trace w)
       \<and> (5 * query_max_batch_size < pending self tname (appended self e tname dicts w) \<longrightarrow>
            insert_dicts_to_buffer self e (Some tname) (Some dicts) w
              = flush_insert_buffer self e (appended self e tname dicts w))
       \<and> (5 * query_max_batch_size < pending self tname (appended self e tname dicts w)
          \<and> (\<forall>x\<in>set (insert_list_of e (insert_buffer (appended self e tname dicts w))). step_ok e x) \<longrightarrow>
            insert_dicts_to_buffer self e (Some tname) (Some dicts) w
              = (Returned (),
                 (appended self e tname dicts w)
                   \<lparr>insert_buffer :=
                      [(metrics_table self,
                        map (flush_metrics self e)
                          (insert_list_of e (insert_buffer (appended self e tname dicts w))))],
                    trace := trace w
                      @ concat (map (send_events self e)
                          (insert_list_of e (insert_buffer (appended self e tname dicts w))))\<rparr>))
       \<and> 5 * query_max_batch_size = 50000"
proof -
  let ?w1 = "appended self e tname dicts w"
  note u = insert_dicts_to_buffer_unfold[OF assms, of self e w]
  have tr: "trace ?w1 = trace w" by (simp add: appended_def)
  have ne: "insert_buffer ?w1 \<noteq> []" by (simp add: appended_def)
  have 1: "insert_dicts_to_buffer self e (Some tname) (Some dicts) w = (Returned (), ?w1)"
    if "pending self tname ?w1 \<le> 5 * query_max_batch_size"
    using that u by simp
  have 2: "insert_dicts_to_buffer self e (Some tname) (Some dicts) w = flush_insert_buffer self e ?w1"
    if "5 * query_max_batch_size < pending self tname ?w1"
    using that u by simp
  have 3: "insert_dicts_to_buffer self e (Some tname) (Some dicts) w
              = (Returned (),
                 ?w1\<lparr>insert_buffer :=
                      [(metrics_table self,
                        map (flush_metrics self e) (insert_list_of e (insert_buffer ?w1)))],
                    trace := trace w
                      @ concat (map (send_events self e) (insert_list_of e (insert_buffer ?w1)))\<rparr>)"
    if "5 * query_max_batch_size < pending self tname ?w1"
      and "\<forall>x\<in>set (insert_list_of e (insert_buffer ?w1)). step_ok e x"
    unfolding 2[OF that(1)] flush_all_steps_ok[OF ne that(2)] tr ..
  from 1 2 3 tr threshold_value show ?thesis by blast
qed

lemma length_many_queries: "length many_queries = 49999"
  unfolding many_queries_def by (rule length_replicate)

lemma example_generate_row_1:
  "generate_queries example_env table_A [row_1] = [query_of table_A]"
  "generate_queries example_env table_A [row_1, row_1] = [query_of table_A, query_of table_A]"
  by (simp_all add: example_env_def row_1_def query_of_def)

lemma example_table_A: "database_tables example_client ''A'' = table_A"
  by (simp add: example_client_def table_A_def)

lemma example_appended:
  "appended example_client example_env ''A'' [row_1] world_almost_full
     = \<lparr>insert_buffer = [(table_A, many_queries @ [query_of table_A])], trace = []\<rparr>"
  "appended example_client example_env ''A'' [row_1, row_1] world_almost_full
     = \<lparr>insert_buffer = [(table_A, many_queries @ [query_of table_A, query_of table_A])], trace = []\<rparr>"
  "appended example_client example_env ''A'' [row_1] empty_world = world_A"
  by (simp_all add: appended_def example_table_A example_generate_row_1 world_almost_full_def
      dict_get_def empty_world_def world_A_def del: generate_queries.simps)

text \<open>With 49999 queries pending for table A, two more rows make 50001 and trigger the
  flush; one row into the empty buffer does not.\<close>

theorem implicit_flush_above_threshold_witness:
  "insert_dicts_to_buffer example_client example_env (Some ''A'') (Some [row_1, row_1])
       world_almost_full
     = (Returned (),
        \<lparr>insert_buffer =
           [(table_M,
             [flush_metrics example_client example_env
                (table_A, map (to_query example_env)
                   (many_queries @ [query_of table_A, query_of table_A]))])],
         trace =
           [Write_points 0 ''db'' ''rp'' 10000
              (map (to_query example_env) (many_queries @ [query_of table_A, query_of table_A]))]\<rparr>)
   \<and> insert_dicts_to_buffer example_client example_env (Some ''A'') (Some [row_1]) empty_world
     = (Returned (), world_A)"
proof -
  let ?w1 = "appended example_client example_env ''A'' [row_1, row_1] world_almost_full"
  have p: "pending example_client ''A'' ?w1 = 50001"
    by (simp add: example_appended pending_def example_table_A dict_get_def length_many_queries)
  have il: "insert_list_of example_env (insert_buffer ?w1)
      = [(table_A, map (to_query example_env) (many_queries @ [query_of table_A, query_of table_A]))]"
    by (simp add: example_appended insert_list_of_def)
  have ok: "\<forall>x\<in>set (insert_list_of example_env (insert_buffer ?w1)). step_ok example_env x"
    unfolding il by (simp add: step_ok_def send_caught_def example_env_def)
  have c: "client example_client = 0" "database_name example_client = ''db''"
    "metrics_table example_client = table_M" "retention_policy_name table_A = ''rp''"
    by (simp_all add: example_client_def table_A_def)
  have wp: "\<And>ps. write_points example_env table_A ps = None"
    by (simp add: example_env_def)
  have tw: "trace world_almost_full = []" by (simp add: world_almost_full_def)
  have A: "insert_dicts_to_buffer example_client example_env (Some ''A'') (Some [row_1, row_1])
       world_almost_full
     = (Returned (),
        \<lparr>insert_buffer =
           [(table_M,
             [flush_metrics example_client example_env
                (table_A, map (to_query example_env)
                   (many_queries @ [query_of table_A, query_of table_A]))])],
         trace =
           [Write_points 0 ''db'' ''rp'' 10000
              (map (to_query example_env) (many_queries @ [query_of table_A, query_of table_A]))]\<rparr>)"
    using implicit_flush_above_threshold[of "''A''" "[row_1, row_1]" example_client example_env
        world_almost_full] p ok
    unfolding il threshold_value p
    by (auto simp: example_appended c send_events_def wp query_max_batch_size_def tw)
  have p0: "pending example_client ''A'' (appended example_client example_env ''A'' [row_1] empty_world) = 1"
    by (simp add: example_appended pending_def example_table_A dict_get_def world_A_def)
  have B: "insert_dicts_to_buffer example_client example_env (Some ''A'') (Some [row_1]) empty_world
     = (Returned (), world_A)"
    using implicit_flush_above_threshold[of "''A''" "[row_1]" example_client example_env
        empty_world]
    unfolding threshold_value p0
    by (simp add: example_appended)
  from A B show ?thesis by blast
qed

text \<open>Claim C3 as stated fails at exactly \<open>5 * 10000\<close> pending queries: the source tests
  \<^verbatim>\<open>len(...) > 5 * self.__query_max_batch_size\<close>. With 49999 queries pending for
  table A, one more row makes 50000, and the call returns without a flush.\<close>

theorem no_flush_at_threshold_counterexample:
  "insert_dicts_to_buffer example_client example_env (Some ''A'') (Some [row_1]) world_almost_full
     = (Returned (),
        \<lparr>insert_buffer = [(table_A, many_queries @ [query_of table_A])], trace = []\<rparr>)
   \<and> length (many_queries @ [query_of table_A]) = 50000
   \<and> 5 * query_max_batch_size \<le> length (many_queries @ [query_of table_A])"
proof -
  have p: "pending example_client ''A''
             (appended example_client example_env ''A'' [row_1] world_almost_full) = 50000"
    by (simp add: example_appended pending_def example_table_A dict_get_def length_many_queries)
  have "insert_dicts_to_buffer example_client example_env (Some ''A'') (Some [row_1]) world_almost_full
     = (Returned (),
        \<lparr>insert_buffer = [(table_A, many_queries @ [query_of table_A])], trace = []\<rparr>)"
    unfolding insert_dicts_to_buffer_unfold[of "''A''" "[row_1]", simplified] threshold_value p
    by (simp add: example_appended)
  then show ?thesis by (simp add: length_many_queries threshold_value)
qed

section \<open>Selection queries\<close>

lemma try_query_result:
  assumes "try_query self e str w = (r, w1)"
  shows "insert_buffer w1 = insert_buffer w"
    and "\<exists>rest. trace w1 = trace w @ Query (client self) (database_name self) str # rest
           \<and> (rest = [] \<or> (\<exists>x. rest = [Exception_info x]))"
  using assms
  by (auto simp: try_query_def log_event_def Let_def split: sum.splits if_splits)

lemma send_and_count_result:
  assumes "send_and_count self e q w = (r, w')"
  shows "\<exists>rest ms.
      trace w' = trace w @ Query (client self) (database_name self) (selection_to_query e q) # rest
    \<and> (rest = [] \<or> (\<exists>x. rest = [Exception_info x]))
    \<and> insert_buffer w' = with_metrics (metrics_table self) ms (insert_buffer w)"
proof -
  let ?str = "selection_to_query e q"
  obtain r1 w1 where t: "try_query self e ?str w = (r1, w1)" by fastforce
  from try_query_result[OF t] obtain rest where
    b1: "insert_buffer w1 = insert_buffer w"
    and t1: "trace w1 = trace w @ Query (client self) (database_name self) ?str # rest"
    and rest: "rest = [] \<or> (\<exists>x. rest = [Exception_info x])"
    by blast
  show ?thesis
  proof (cases r1)
    case (Raised x)
    with assms t have "w' = w1" by (simp add: send_and_count_def)
    with b1 t1 rest show ?thesis
      by (intro exI[of _ rest] exI[of _ "[]"]) (simp add: with_metrics_def)
  next
    case (Returned result)
    let ?tc = "tables_count_of (sq_tables q) (result_length result)"
    obtain r2 w2 where m: "insert_metrics_to_buffer self e (sq_keyword q) ?tc
        (query_duration e ?str) 1 w1 = (r2, w2)" by fastforce
    from assms t Returned m have w': "w' = w2"
      by (auto simp: send_and_count_def split: outcome.splits)
    show ?thesis
    proof (cases "r2 = Returned ()")
      case False
      from insert_metrics_result(1)[OF m False] w' b1 t1 rest show ?thesis
        by (intro exI[of _ rest] exI[of _ "[]"]) (simp add: with_metrics_def)
    next
      case True
      from m True have ne: "?tc \<noteq> []"
        by (auto simp: insert_metrics_to_buffer_def split: if_splits)
      from insert_metrics_result(2)[OF m True] w' b1 t1 rest ne show ?thesis
        by (intro exI[of _ rest]
              exI[of _ "map (metrics_query self e (sq_keyword q) (query_duration e ?str) 1) ?tc"])
           (simp add: with_metrics_def)
    qed
  qed
qed

lemma not_is_write_rest:
  "rest = [] \<or> (\<exists>x. rest = [Exception_info x]) \<Longrightarrow> \<not> list_ex is_write rest"
  by (auto simp: is_write_def)

lemma buffered_if_pending: "dict_get (insert_buffer w) tbl \<noteq> [] \<Longrightarrow> buffered w tbl"
  unfolding buffered_def dict_get_def
  by (auto split: option.splits dest: map_of_SomeD intro: rev_image_eqI)

lemma flush_returned_trace:
  assumes "flush_insert_buffer self e w = (Returned (), w1)"
  shows "trace w1 = trace w @ concat (map (send_events self e) (insert_list_of e (insert_buffer w)))"
proof (cases "insert_buffer w = []")
  case True
  with assms show ?thesis by (simp add: flush_insert_buffer_def insert_list_of_def)
next
  case False
  with assms have "send_insert_list self e (insert_list_of e (insert_buffer w))
      (w\<lparr>insert_buffer := []\<rparr>) = (Returned (), w1)"
    by (simp add: flush_insert_buffer_def)
  from send_insert_list_prefix[OF this] show ?thesis by auto
qed

lemma list_ex_buffered:
  "list_ex (buffered w) ts \<longleftrightarrow> (\<exists>tbl\<in>set ts. tbl \<in> fst ` set (insert_buffer w))"
  by (simp add: list_ex_iff buffered_def)

lemma selection_flush_check:
  "(list_ex (buffered w) (sq_tables q) \<and> flush_insert_buffer self e w = (Raised x, w1) \<longrightarrow>
      send_selection_query self e (Some q) w = (Raised x, w1))
   \<and> (list_ex (buffered w) (sq_tables q) \<and> flush_insert_buffer self e w = (Returned (), w1)
        \<and> send_selection_query self e (Some q) w = (r, w') \<longrightarrow>
      trace w1 = trace w @ concat (map (send_events self e) (insert_list_of e (insert_buffer w)))
      \<and> (\<exists>rest. trace w' = trace w1
              @ Query (client self) (database_name self) (selection_to_query e q) # rest
            \<and> \<not> list_ex is_write rest))
   \<and> (\<not> list_ex (buffered w) (sq_tables q) \<and> send_selection_query self e (Some q) w = (r, w') \<longrightarrow>
      (\<exists>rest. trace w' = trace w
              @ Query (client self) (database_name self) (selection_to_query e q) # rest
            \<and> \<not> list_ex is_write rest)
      \<and> (\<exists>ms. insert_buffer w' = with_metrics (metrics_table self) ms (insert_buffer w)))
   \<and> ((\<exists>tbl\<in>set (sq_tables q). dict_get (insert_buffer w) tbl \<noteq> []) \<longrightarrow>
        list_ex (buffered w) (sq_tables q))"
proof (intro conjI impI)
  assume "list_ex (buffered w) (sq_tables q) \<and> flush_insert_buffer self e w = (Raised x, w1)"
  then show "send_selection_query self e (Some q) w = (Raised x, w1)"
    by (auto simp: send_selection_query_def)
next
  assume a: "list_ex (buffered w) (sq_tables q) \<and> flush_insert_buffer self e w = (Returned (), w1)
        \<and> send_selection_query self e (Some q) w = (r, w')"
  then show "trace w1 = trace w @ concat (map (send_events self e) (insert_list_of e (insert_buffer w)))"
    by (simp add: flush_returned_trace)
  from a have "send_and_count self e q w1 = (r, w')"
    by (auto simp: send_selection_query_def)
  from send_and_count_result[OF this]
  show "\<exists>rest. trace w' = trace w1
              @ Query (client self) (database_name self) (selection_to_query e q) # rest
            \<and> \<not> list_ex is_write rest"
    using not_is_write_rest by blast
next
  assume a: "\<not> list_ex (buffered w) (sq_tables q) \<and> send_selection_query self e (Some q) w = (r, w')"
  then have s: "send_and_count self e q w = (r, w')"
    by (auto simp: send_selection_query_def)
  from send_and_count_result[OF s]
  show "\<exists>rest. trace w' = trace w
              @ Query (client self) (database_name self) (selection_to_query e q) # rest
            \<and> \<not> list_ex is_write rest"
    using not_is_write_rest by blast
  from send_and_count_result[OF s]
  show "\<exists>ms. insert_buffer w' = with_metrics (metrics_table self) ms (insert_buffer w)"
    by blast
next
  assume "\<exists>tbl\<in>set (sq_tables q). dict_get (insert_buffer w) tbl \<noteq> []"
  then show "list_ex (buffered w) (sq_tables q)"
    by (auto simp: list_ex_iff intro: buffered_if_pending)
qed

text \<open>
  Claim C4, as amended. What \<^verbatim>\<open>send_selection_query\<close> tests is whether a table of the
  query is a key of the insert buffer (\<^verbatim>\<open>table in self.__insert_buffer\<close>), whatever list
  the key maps to. For a \<^verbatim>\<open>SELECT\<close> or \<^verbatim>\<open>DELETE\<close> query:
  \<^item> when a table of the query is a key of the buffer, the whole buffer is flushed first.
    If that flush raises, the exception leaves \<^verbatim>\<open>send_selection_query\<close> and no query is
    sent. If it returns, it has written every table of the buffer, targeted or not, and
    the query is sent to the driver after all these writes; nothing is written after the
    query;
  \<^item> when no table of the query is a key of the buffer, the first call to the driver is
    the query itself, no write is made at all, and the buffer keeps what it held (only
    metrics of the query may be added);
  \<^item> a table of the query with at least one pending query is a key of the buffer, so
    pending entries always lead to the flush. The converse fails: a key may map to the
    empty list.
\<close>

theorem selection_flushes_buffered_tables:
  "((\<exists>tbl\<in>set (sq_tables q). tbl \<in> fst ` set (insert_buffer w))
        \<and> flush_insert_buffer self e w = (Raised x, w1) \<longrightarrow>
      send_selection_query self e (Some q) w = (Raised x, w1))
   \<and> ((\<exists>tbl\<in>set (sq_tables q). tbl \<in> fst ` set (insert_buffer w))
        \<and> flush_insert_buffer self e w = (Returned (), w1)
        \<and> send_selection_query self e (Some q) w = (r, w') \<longrightarrow>
      trace w1 = trace w @ concat (map (send_events self e) (insert_list_of e (insert_buffer w)))
      \<and> (\<exists>rest. trace w' = trace w1
              @ Query (client self) (database_name self) (selection_to_query e q) # rest
            \<and> \<not> list_ex is_write rest))
   \<and> ((\<forall>tbl\<in>set (sq_tables q). tbl \<notin> fst ` set (insert_buffer w))
        \<and> send_selection_query self e (Some q) w = (r, w') \<longrightarrow>
      (\<exists>rest. trace w' = trace w
              @ Query (client self) (database_name self) (selection_to_query e q) # rest
            \<and> \<not> list_ex is_write rest)
      \<and> (\<exists>ms. insert_buffer w' = with_metrics (metrics_table self) ms (insert_buffer w)))
   \<and> ((\<exists>tbl\<in>set (sq_tables q). dict_get (insert_buffer w) tbl \<noteq> []) \<longrightarrow>
        (\<exists>tbl\<in>set (sq_tables q). tbl \<in> fst ` set (insert_buffer w)))"
proof -
  have n: "(\<forall>tbl\<in>set (sq_tables q). tbl \<notin> fst ` set (insert_buffer w))
      \<longleftrightarrow> \<not> list_ex (buffered w) (sq_tables q)"
    by (simp add: list_ex_buffered)
  show ?thesis
    unfolding n list_ex_buffered[symmetric] by (rule selection_flush_check)
qed

lemma example_flush_AB:
  "flush_insert_buffer example_client example_env world_AB =
     (Returned (),
      \<lparr>insert_buffer =
         [(table_M, [flush_metrics example_client example_env (table_A, [''A'']),
                     flush_metrics example_client example_env (table_B, [''B''])])],
       trace = [Write_points 0 ''db'' ''rp'' 10000 [''A''],
                Write_points 0 ''db'' ''rp'' 10000 [''B'']]\<rparr>)"
proof -
  have il: "insert_list_of example_env (insert_buffer world_AB)
      = [(table_A, [''A'']), (table_B, [''B''])]"
    by (simp add: insert_list_of_def world_AB_def example_env_def query_of_def
        table_A_def table_B_def)
  have ne: "insert_buffer world_AB \<noteq> []" by (simp add: world_AB_def)
  have ok: "\<forall>x\<in>set (insert_list_of example_env (insert_buffer world_AB)). step_ok example_env x"
    unfolding il by (simp add: step_ok_def send_caught_def example_env_def)
  have c: "client example_client = 0" "database_name example_client = ''db''"
    "metrics_table example_client = table_M"
    "retention_policy_name table_A = ''rp''" "retention_policy_name table_B = ''rp''"
    "\<And>t ps. write_points example_env t ps = None"
    by (simp_all add: example_client_def table_A_def table_B_def example_env_def)
  show ?thesis
    unfolding flush_all_steps_ok[OF ne ok] il
    by (simp add: send_events_def c query_max_batch_size_def world_AB_def)
qed

text \<open>A query on table A while A and B are keys of the buffer: both are written, then
  the query is sent. The same query on the empty buffer: the query is the first event.\<close>

theorem selection_flushes_buffered_tables_witness:
  "table_A \<in> fst ` set (insert_buffer world_AB)
   \<and> table_A \<notin> fst ` set (insert_buffer empty_world)
   \<and> sq_tables select_A = [table_A]
   \<and> (\<exists>r w' rest.
        send_selection_query example_client example_env (Some select_A) world_AB = (r, w')
      \<and> trace w' = [Write_points 0 ''db'' ''rp'' 10000 [''A''],
                     Write_points 0 ''db'' ''rp'' 10000 [''B'']]
                    @ Query 0 ''db'' ''SELECT'' # rest
      \<and> \<not> list_ex is_write rest)
   \<and> (\<exists>r w' rest.
        send_selection_query example_client example_env (Some select_A) empty_world = (r, w')
      \<and> trace w' = Query 0 ''db'' ''SELECT'' # rest
      \<and> \<not> list_ex is_write rest)"
proof -
  have t: "sq_tables select_A = [table_A]" by (simp add: select_A_def)
  have k1: "table_A \<in> fst ` set (insert_buffer world_AB)" by (simp add: world_AB_def)
  have k2: "table_A \<notin> fst ` set (insert_buffer empty_world)" by (simp add: empty_world_def)
  have b1: "\<exists>tbl\<in>set (sq_tables select_A). tbl \<in> fst ` set (insert_buffer world_AB)"
    using k1 by (simp add: t)
  have b2: "\<forall>tbl\<in>set (sq_tables select_A). tbl \<notin> fst ` set (insert_buffer empty_world)"
    using k2 by (simp add: t)
  have c: "client example_client = 0" "database_name example_client = ''db''"
    "selection_to_query example_env select_A = ''SELECT''"
    by (simp_all add: example_client_def example_env_def)
  obtain r w' where s: "send_selection_query example_client example_env (Some select_A) world_AB
      = (r, w')" by fastforce
  obtain r0 w0 where s0: "send_selection_query example_client example_env (Some select_A) empty_world
      = (r0, w0)" by fastforce
  let ?W1 = "\<lparr>insert_buffer =
            [(table_M, [flush_metrics example_client example_env (table_A, [''A'']),
                        flush_metrics example_client example_env (table_B, [''B''])])],
          trace = [Write_points 0 ''db'' ''rp'' 10000 [''A''],
                   Write_points 0 ''db'' ''rp'' 10000 [''B'']]\<rparr>"
  from selection_flushes_buffered_tables[of select_A world_AB example_client example_env
        "DriverError ConnectionError" ?W1 r w'] b1 example_flush_AB s
  have "\<exists>rest. trace w' = trace ?W1
            @ Query (client example_client) (database_name example_client)
                (selection_to_query example_env select_A) # rest
          \<and> \<not> list_ex is_write rest"
    by blast
  then have A: "\<exists>rest. trace w' = [Write_points 0 ''db'' ''rp'' 10000 [''A''],
                     Write_points 0 ''db'' ''rp'' 10000 [''B'']]
                    @ Query 0 ''db'' ''SELECT'' # rest
      \<and> \<not> list_ex is_write rest"
    by (simp add: c)
  from selection_flushes_buffered_tables[of select_A empty_world example_client example_env
        "DriverError ConnectionError" empty_world r0 w0] b2 s0
  have "\<exists>rest. trace w0 = trace empty_world
            @ Query (client example_client) (database_name example_client)
                (selection_to_query example_env select_A) # rest
          \<and> \<not> list_ex is_write rest"
    by blast
  then have B: "\<exists>rest. trace w0 = Query 0 ''db'' ''SELECT'' # rest \<and> \<not> list_ex is_write rest"
    by (simp add: c empty_world_def)
  from k1 k2 t A B s s0 show ?thesis by blast
qed

lemma example_flush_empty_A:
  "flush_insert_buffer example_client example_env world_empty_A =
     (Raised (ValueError Batch_size_not_positive),
      \<lparr>insert_buffer = [], trace = [Write_points 0 ''db'' ''rp'' 10000 []]\<rparr>)"
proof -
  have c: "send_caught example_env (table_A, [])" "0 < write_duration example_env table_A []"
    "client example_client = 0" "database_name example_client = ''db''"
    "retention_policy_name table_A = ''rp''" "write_points example_env table_A [] = None"
    by (simp_all add: send_caught_def example_env_def example_client_def table_A_def)
  show ?thesis
    unfolding flush_insert_buffer_def
    by (simp add: world_empty_A_def insert_list_of_def send_empty_table_raises[OF c(1,2)]
        send_events_def c query_max_batch_size_def del: send_insert_list.simps)
qed

text \<open>Claim C4 as stated fails where it says that no flush occurs when no target table
  has pending entries: table A is a key of the buffer with an empty list, so it has no
  pending entry, and yet a query on A flushes the buffer; the flush writes the empty
  batch and raises, and the query is never sent.\<close>

theorem selection_flushes_empty_entry_counterexample:
  "sq_tables select_A = [table_A]
   \<and> dict_get (insert_buffer world_empty_A) table_A = []
   \<and> send_selection_query example_client example_env (Some select_A) world_empty_A =
       (Raised (ValueError Batch_size_not_positive),
        \<lparr>insert_buffer = [], trace = [Write_points 0 ''db'' ''rp'' 10000 []]\<rparr>)"
proof -
  have t: "sq_tables select_A = [table_A]" by (simp add: select_A_def)
  have d: "dict_get (insert_buffer world_empty_A) table_A = []"
    by (simp add: dict_get_def world_empty_A_def)
  have b: "list_ex (buffered world_empty_A) (sq_tables select_A)"
    by (simp add: t buffered_def world_empty_A_def)
  have "send_selection_query example_client example_env (Some select_A) world_empty_A =
       (Raised (ValueError Batch_size_not_positive),
        \<lparr>insert_buffer = [], trace = [Write_points 0 ''db'' ''rp'' 10000 []]\<rparr>)"
    using b by (simp add: send_selection_query_def example_flush_empty_A)
  with t d show ?thesis by blast
qed

lemma set_update_subset: "set (AList.update k v al) \<subseteq> insert (k, v) (set al)"
  by (induction al) auto

lemma tables_count_fold:
  "fst ` set (fold (\<lambda>tbl d. AList.update tbl c d) ts d0) = set ts \<union> fst ` set d0"
  "(\<forall>p\<in>set d0. snd p = c) \<Longrightarrow> \<forall>p\<in>set (fold (\<lambda>tbl d. AList.update tbl c d) ts d0). snd p = c"
  "distinct (map fst d0) \<Longrightarrow> distinct (map fst (fold (\<lambda>tbl d. AList.update tbl c d) ts d0))"
proof (induction ts arbitrary: d0)
  case Nil
  { case 1 show ?case by simp }
  { case 2 then show ?case by simp }
  { case 3 then show ?case by simp }
next
  case (Cons t ts)
  { case 1 show ?case by (simp add: Cons.IH(1) dom_update) }
  { case 2
    then have "\<forall>p\<in>set (AList.update t c d0). snd p = c"
      using set_update_subset[of t c d0] by auto
    then show ?case by (simp add: Cons.IH(2)) }
  { case 3 then show ?case by (simp add: Cons.IH(3) distinct_update) }
qed

lemma tables_count_of_zero:
  "fst ` set (tables_count_of ts 0) = set ts"
  "\<forall>tc\<in>set (tables_count_of ts 0). snd tc = 0"
  "distinct (map fst (tables_count_of ts 0))"
  "ts \<noteq> [] \<Longrightarrow> tables_count_of ts 0 \<noteq> []"
proof -
  show 1: "fst ` set (tables_count_of ts 0) = set ts"
    by (simp add: tables_count_of_def tables_count_fold(1))
  show "\<forall>tc\<in>set (tables_count_of ts 0). snd tc = 0"
    using tables_count_fold(2)[of "[]" 0 ts] by (simp add: tables_count_of_def)
  show "distinct (map fst (tables_count_of ts 0))"
    by (simp add: tables_count_of_def tables_count_fold(3))
  show "tables_count_of ts 0 \<noteq> []" if "ts \<noteq> []"
    using 1 that by (cases "tables_count_of ts 0") auto
qed

lemma try_query_caught:
  assumes "query_result e str = Inl err" and "caught_influx_error err"
  shows "try_query self e str w =
     (Returned [],
      w\<lparr>trace := trace w @ [Query (client self) (database_name self) str,
                              Exception_info (DriverError err)]\<rparr>)"
  using assms by (simp add: try_query_def log_event_def)

lemma send_selection_query_after_check:
  assumes "list_ex (buffered w) (sq_tables q) \<longrightarrow> fst (flush_insert_buffer self e w) = Returned ()"
  shows "send_selection_query self e (Some q) w = send_and_count self e q (after_flush_check self e q w)"
  using assms
  by (cases "flush_insert_buffer self e w")
     (auto simp: send_selection_query_def after_flush_check_def)

text \<open>
  Claim C7, as amended. When the flush check has gone through (no table of the query is
  buffered, or the flush returned), the driver raises \<^verbatim>\<open>InfluxDBServerError\<close> or
  \<^verbatim>\<open>InfluxDBClientError\<close> on the query, the measured duration is positive and the query
  has at least one table, then \<^verbatim>\<open>send_selection_query\<close> returns the empty result set,
  the error is passed to \<^verbatim>\<open>exception_info\<close>, and one metrics record with item count 0
  is appended for each table of the query.
\<close>

theorem selection_swallows_influx_errors:
  assumes "query_result e (selection_to_query e q) = Inl err" and "caught_influx_error err"
    and "0 < query_duration e (selection_to_query e q)" and "sq_tables q \<noteq> []"
    and "list_ex (buffered w) (sq_tables q) \<longrightarrow> fst (flush_insert_buffer self e w) = Returned ()"
  shows "send_selection_query self e (Some q) w =
      (Returned [],
       (after_flush_check self e q w)
         \<lparr>insert_buffer :=
            AList.update (metrics_table self)
              (dict_get (insert_buffer (after_flush_check self e q w)) (metrics_table self)
                 @ map (metrics_query self e (sq_keyword q)
                          (query_duration e (selection_to_query e q)) 1)
                     (tables_count_of (sq_tables q) 0))
              (insert_buffer (after_flush_check self e q w)),
          trace := trace (after_flush_check self e q w)
            @ [Query (client self) (database_name self) (selection_to_query e q),
               Exception_info (DriverError err)]\<rparr>)
    \<and> fst ` set (tables_count_of (sq_tables q) 0) = set (sq_tables q)
    \<and> distinct (map fst (tables_count_of (sq_tables q) 0))
    \<and> (\<forall>tc\<in>set (tables_count_of (sq_tables q) 0).
          item_count (metrics_query self e (sq_keyword q)
                        (query_duration e (selection_to_query e q)) 1 tc) = 0)"
proof -
  let ?w1 = "after_flush_check self e q w"
  have ne: "tables_count_of (sq_tables q) 0 \<noteq> []"
    using assms(4) by (rule tables_count_of_zero(4))
  have "send_selection_query self e (Some q) w = send_and_count self e q ?w1"
    using assms(5) by (rule send_selection_query_after_check)
  also have "\<dots> = (Returned [],
       ?w1\<lparr>insert_buffer :=
            AList.update (metrics_table self)
              (dict_get (insert_buffer ?w1) (metrics_table self)
                 @ map (metrics_query self e (sq_keyword q)
                          (query_duration e (selection_to_query e q)) 1)
                     (tables_count_of (sq_tables q) 0))
              (insert_buffer ?w1),
          trace := trace ?w1
            @ [Query (client self) (database_name self) (selection_to_query e q),
               Exception_info (DriverError err)]\<rparr>)"
    using assms(3) ne
    by (simp add: send_and_count_def try_query_caught[OF assms(1,2)] result_length_def
        insert_metrics_to_buffer_def Let_def)
  finally have 1: "send_selection_query self e (Some q) w = (Returned [],
       ?w1\<lparr>insert_buffer :=
            AList.update (metrics_table self)
              (dict_get (insert_buffer ?w1) (metrics_table self)
                 @ map (metrics_query self e (sq_keyword q)
                          (query_duration e (selection_to_query e q)) 1)
                     (tables_count_of (sq_tables q) 0))
              (insert_buffer ?w1),
          trace := trace ?w1
            @ [Query (client self) (database_name self) (selection_to_query e q),
               Exception_info (DriverError err)]\<rparr>)" .
  have 4: "\<forall>tc\<in>set (tables_count_of (sq_tables q) 0).
          item_count (metrics_query self e (sq_keyword q)
                        (query_duration e (selection_to_query e q)) 1 tc) = 0"
    using tables_count_of_zero(2)[of "sq_tables q"] by (simp add: item_count_metrics_query)
  from 1 tables_count_of_zero(1,3)[of "sq_tables q"] 4 show ?thesis by blast
qed

text \<open>The server rejects a query on table A: the empty result set is returned and one
  metrics record with count 0 is buffered.\<close>

theorem selection_swallows_influx_errors_witness:
  "send_selection_query example_client query_server_error_env (Some select_A) empty_world =
     (Returned [],
      \<lparr>insert_buffer =
         [(table_M, [metrics_query example_client query_server_error_env SELECT 1 1 (table_A, 0)])],
       trace = [Query 0 ''db'' ''SELECT'', Exception_info (DriverError InfluxDBServerError)]\<rparr>)
   \<and> item_count (metrics_query example_client query_server_error_env SELECT 1 1 (table_A, 0)) = 0"
proof -
  have h: "query_result query_server_error_env (selection_to_query query_server_error_env select_A)
        = Inl InfluxDBServerError"
    "caught_influx_error InfluxDBServerError"
    "0 < query_duration query_server_error_env (selection_to_query query_server_error_env select_A)"
    "sq_tables select_A \<noteq> []"
    "list_ex (buffered empty_world) (sq_tables select_A) \<longrightarrow>
       fst (flush_insert_buffer example_client query_server_error_env empty_world) = Returned ()"
    by (simp_all add: query_server_error_env_def example_env_def caught_influx_error_def
        select_A_def buffered_def empty_world_def)
  have c: "client example_client = 0" "database_name example_client = ''db''"
    "metrics_table example_client = table_M"
    "selection_to_query query_server_error_env select_A = ''SELECT''"
    "query_duration query_server_error_env ''SELECT'' = 1"
    "sq_keyword select_A = SELECT"
    "tables_count_of (sq_tables select_A) 0 = [(table_A, 0)]"
    "after_flush_check example_client query_server_error_env select_A empty_world = empty_world"
    by (simp_all add: example_client_def query_server_error_env_def example_env_def select_A_def
        tables_count_of_def after_flush_check_def buffered_def empty_world_def)
  from selection_swallows_influx_errors[OF h]
  show ?thesis
    unfolding c by (simp add: empty_world_def dict_get_def)
qed

text \<open>Claim C7 as stated fails for a driver error that the handler does not catch: when
  the connection drops during the query, the exception reaches the caller, no result
  set is returned and no metrics record is appended.\<close>

theorem selection_connection_error_counterexample:
  "send_selection_query example_client query_connection_error_env (Some select_A) empty_world =
     (Raised (DriverError ConnectionError),
      \<lparr>insert_buffer = [], trace = [Query 0 ''db'' ''SELECT'']\<rparr>)"
  by (simp add: send_selection_query_def send_and_count_def try_query_def log_event_def
      query_connection_error_env_def example_env_def example_client_def select_A_def
      buffered_def empty_world_def caught_influx_error_def)

section \<open>Reconciliation of retention policies and continuous queries\<close>

lemma schedule_rp_default_used:
  "rp_default rp2 \<Longrightarrow>
   schedule_rp to_dict d (ys @ rp2 # zs) True add alter = Inl (ValueError Multiple_default_rp)"
  by (induction ys arbitrary: add alter) (auto simp: Let_def split: option.splits)

lemma schedule_rp_two_defaults:
  "rp_default rp1 \<Longrightarrow> rp_default rp2 \<Longrightarrow>
   schedule_rp to_dict d (xs @ rp1 # ys @ rp2 # zs) du add alter
     = Inl (ValueError Multiple_default_rp)"
proof (induction xs arbitrary: du add alter)
  case Nil
  then show ?case
    by (auto simp: Let_def schedule_rp_default_used split: option.splits)
next
  case (Cons x xs)
  then show ?case
    by (auto simp: Let_def split: option.splits)
qed

text \<open>
  Claim C5, as amended. When the declared retention policies contain two policies that
  are both marked default, \<^verbatim>\<open>check_create_rp\<close> raises its \<^verbatim>\<open>ValueError\<close> ("Retention
  Policies check failed"), after exactly one call to the server, the read of the
  server's list of retention policies, and before any create or alter call. The logged
  cause is the \<^verbatim>\<open>ValueError\<close> "multiple Retention Policies are declared as default" when
  that read succeeded, and the driver's error when it failed.
\<close>

theorem two_default_policies_rejected:
  assumes "retention_policies self = xs @ rp1 # ys @ rp2 # zs"
    and "rp_default rp1" and "rp_default rp2"
  shows "\<exists>x. check_create_rp self e w =
            (Raised (ValueError RP_check_failed),
             w\<lparr>trace := trace w
                 @ [Get_list_retention_policies (client self) (database_name self),
                    Exception_info x]\<rparr>)
          \<and> (case get_list_retention_policies e (database_name self) of
                Inl err \<Rightarrow> x = DriverError err
              | Inr results \<Rightarrow> x = ValueError Multiple_default_rp)"
proof (cases "get_list_retention_policies e (database_name self)")
  case (Inl err)
  then show ?thesis
    by (intro exI[of _ "DriverError err"])
       (simp add: check_create_rp_def check_create_rp_body_def log_event_def)
next
  case (Inr results)
  then show ?thesis
    by (intro exI[of _ "ValueError Multiple_default_rp"])
       (simp add: check_create_rp_def check_create_rp_body_def log_event_def
          assms(1) schedule_rp_two_defaults[OF assms(2,3)])
qed

text \<open>Two default policies, and a server that knows no policy.\<close>

theorem two_default_policies_rejected_witness:
  "check_create_rp two_default_client example_env empty_world =
     (Raised (ValueError RP_check_failed),
      \<lparr>insert_buffer = [],
       trace = [Get_list_retention_policies 0 ''db'',
                Exception_info (ValueError Multiple_default_rp)]\<rparr>)"
proof -
  have h: "retention_policies two_default_client = [] @ rp_day # [] @ rp_year # []"
    "rp_default rp_day" "rp_default rp_year"
    by (simp_all add: two_default_client_def example_client_def rp_day_def rp_year_def)
  have c: "client two_default_client = 0" "database_name two_default_client = ''db''"
    "get_list_retention_policies example_env ''db'' = Inr []"
    by (simp_all add: two_default_client_def example_client_def example_env_def)
  from two_default_policies_rejected[OF h, of example_env empty_world]
  show ?thesis
    by (auto simp: c empty_world_def)
qed

text \<open>Claim C5 as stated fails: the check for a second default policy is made inside the
  loop that follows \<^verbatim>\<open>get_list_retention_policies\<close>, so the server has been called
  when the configuration is rejected.\<close>

theorem server_called_before_rejection_counterexample:
  "\<exists>w'. check_create_rp two_default_client example_env empty_world
           = (Raised (ValueError RP_check_failed), w')
      \<and> hd (trace w') = Get_list_retention_policies 0 ''db''
      \<and> trace empty_world = []"
  by (simp add: check_create_rp_def check_create_rp_body_def log_event_def
      two_default_client_def example_client_def example_env_def rp_day_def rp_year_def
      empty_world_def)







section \<open>The buffer is shared by all instances\<close>

text \<open>The methods on the store are the methods on the world of their instance: they
  change the dict object that the lookup yields, and the record of the calls.\<close>

lemma getattr_put_world [simp]:
  "getattr_insert_buffer (put_world self_id w s) x = getattr_insert_buffer s x"
  by (simp add: getattr_insert_buffer_def put_world_def split: option.splits)

lemma bindings_put_world [simp]:
  "instance_insert_buffer (put_world self_id w s) = instance_insert_buffer s"
  "class_insert_buffer (put_world self_id w s) = class_insert_buffer s"
  by (simp_all add: put_world_def)

lemma as_world_put_world [simp]: "as_world (put_world self_id w s) self_id = w"
  by (simp add: as_world_def buffer_of_def) (simp add: put_world_def)

lemma put_world_put_world [simp]:
  "put_world self_id w' (put_world self_id w s) = put_world self_id w' s"
proof -
  have "getattr_insert_buffer (put_world self_id w s) self_id = getattr_insert_buffer s self_id"
    by simp
  then show ?thesis
    unfolding put_world_def[of self_id w' "put_world self_id w s"]
    by (simp add: put_world_def)
qed

lemma put_world_as_world [simp]: "put_world self_id (as_world s self_id) s = s"
  by (simp add: put_world_def as_world_def buffer_of_def)

lemma store_trace_put_world [simp]: "store_trace (put_world self_id w s) = trace w"
  by (simp add: put_world_def)

lemma buffer_of_put_world:
  "getattr_insert_buffer s x = getattr_insert_buffer s self_id \<Longrightarrow>
   buffer_of (put_world self_id w s) x = insert_buffer w"
  by (simp add: buffer_of_def) (simp add: put_world_def)

lemma log_call_put_world:
  "log_call ev s = put_world self_id (log_event ev (as_world s self_id)) s"
  by (simp add: log_call_def put_world_def log_event_def as_world_def buffer_of_def)

lemma dict_setitem_put_world:
  "dict_setitem (getattr_insert_buffer s self_id) k v s =
     put_world self_id ((as_world s self_id)\<lparr>insert_buffer := AList.update k v (buffer_of s self_id)\<rparr>) s"
  by (simp add: dict_setitem_def put_world_def as_world_def buffer_of_def)

lemma dict_clear_put_world:
  "dict_clear (getattr_insert_buffer s self_id) s =
     put_world self_id ((as_world s self_id)\<lparr>insert_buffer := []\<rparr>) s"
  by (simp add: dict_clear_def put_world_def as_world_def)

lemma insert_buffer_as_world [simp]: "insert_buffer (as_world s self_id) = buffer_of s self_id"
  by (simp add: as_world_def)

lemma trace_as_world [simp]: "trace (as_world s self_id) = store_trace s"
  by (simp add: as_world_def)

lemma through_pair [simp]: "through self_id (r, w) s = (r, put_world self_id w s)"
  by (simp add: through_def)

lemma insert_metrics_to_buffer_obj_sim:
  "insert_metrics_to_buffer_obj self_id self e kw tcs d b s =
     through self_id (insert_metrics_to_buffer self e kw tcs d b (as_world s self_id)) s"
  by (simp add: insert_metrics_to_buffer_obj_def insert_metrics_to_buffer_def Let_def
      dict_setitem_put_world)

lemma try_write_points_obj_sim:
  "try_write_points_obj self e tbl qs s =
     through self_id (try_write_points self e tbl qs (as_world s self_id)) s"
  by (simp add: try_write_points_obj_def try_write_points_def Let_def
      log_call_put_world[of _ _ self_id] split: option.splits)

lemma try_query_obj_sim:
  "try_query_obj self e q s = through self_id (try_query self e q (as_world s self_id)) s"
  by (simp add: try_query_obj_def try_query_def Let_def
      log_call_put_world[of _ _ self_id] split: sum.splits)

lemma send_insert_list_obj_sim:
  "send_insert_list_obj self_id self e xs s =
     through self_id (send_insert_list self e xs (as_world s self_id)) s"
proof (induction xs arbitrary: s)
  case Nil
  show ?case by simp
next
  case (Cons x xs)
  obtain tbl qs where x: "x = (tbl, qs)" by (cases x)
  obtain r1 w1 where t: "try_write_points self e tbl qs (as_world s self_id) = (r1, w1)"
    by fastforce
  have t': "try_write_points_obj self e tbl qs s = (r1, put_world self_id w1 s)"
    by (simp add: try_write_points_obj_sim[of _ _ _ _ _ self_id] t)
  show ?case
  proof (cases r1)
    case (Raised ex)
    with t t' show ?thesis by (simp add: x)
  next
    case (Returned u)
    let ?n = "int (length qs)"
    obtain r2 w2 where m: "insert_metrics_to_buffer self e INSERT [(tbl, ?n)]
        (write_duration e tbl qs) ?n w1 = (r2, w2)" by fastforce
    have m': "insert_metrics_to_buffer_obj self_id self e INSERT [(tbl, ?n)]
        (write_duration e tbl qs) ?n (put_world self_id w1 s) = (r2, put_world self_id w2 s)"
      by (simp add: insert_metrics_to_buffer_obj_sim m)
    show ?thesis
    proof (cases r2)
      case (Raised ex)
      with t t' m m' Returned show ?thesis by (simp add: x)
    next
      case r2: (Returned v)
      obtain r3 w3 where r: "send_insert_list self e xs w2 = (r3, w3)" by fastforce
      have "send_insert_list_obj self_id self e xs (put_world self_id w2 s)
          = (r3, put_world self_id w3 s)"
        by (simp add: Cons.IH r)
      with t t' m m' Returned r2 r show ?thesis by (simp add: x)
    qed
  qed
qed

lemma flush_insert_buffer_obj_sim:
  "flush_insert_buffer_obj self_id self e s =
     through self_id (flush_insert_buffer self e (as_world s self_id)) s"
proof (cases "buffer_of s self_id = []")
  case True
  then show ?thesis by (simp add: flush_insert_buffer_obj_def flush_insert_buffer_def)
next
  case False
  obtain r w where f: "send_insert_list self e (insert_list_of e (buffer_of s self_id))
      ((as_world s self_id)\<lparr>insert_buffer := []\<rparr>) = (r, w)" by fastforce
  from False f show ?thesis
    by (simp add: flush_insert_buffer_obj_def flush_insert_buffer_def Let_def
        dict_clear_put_world send_insert_list_obj_sim)
qed

lemma insert_dicts_to_buffer_obj_sim:
  "insert_dicts_to_buffer_obj self_id self e tname dicts s =
     through self_id (insert_dicts_to_buffer self e tname dicts (as_world s self_id)) s"
proof (cases "\<exists>ds. dicts = Some ds \<and> ds \<noteq> [] \<and> tname \<noteq> None \<and> tname \<noteq> Some []")
  case False
  then show ?thesis
    by (auto simp: insert_dicts_to_buffer_obj_def insert_dicts_to_buffer_def
        split: option.splits)
next
  case True
  then obtain ds n where d: "dicts = Some ds" "ds \<noteq> []" "tname = Some n" "n \<noteq> []"
    by auto
  let ?tbl = "database_tables self n"
  let ?tb = "dict_get (buffer_of s self_id) ?tbl @ generate_queries e ?tbl ds"
  let ?w1 = "(as_world s self_id)\<lparr>insert_buffer := AList.update ?tbl ?tb (buffer_of s self_id)\<rparr>"
  have s1: "dict_setitem (getattr_insert_buffer s self_id) ?tbl ?tb s = put_world self_id ?w1 s"
    by (rule dict_setitem_put_world)
  have b1: "buffer_of (put_world self_id ?w1 s) self_id = insert_buffer ?w1"
    by (rule buffer_of_put_world) simp
  obtain r w where f: "flush_insert_buffer self e ?w1 = (r, w)" by fastforce
  have f': "flush_insert_buffer_obj self_id self e (put_world self_id ?w1 s)
      = (r, put_world self_id w s)"
    by (simp add: flush_insert_buffer_obj_sim f)
  show ?thesis
    unfolding insert_dicts_to_buffer_obj_def insert_dicts_to_buffer_def d(1) d(3)
    using d(2,4) f f'
    by (simp add: Let_def s1 b1)
qed

lemma send_and_count_obj_sim:
  "send_and_count_obj self_id self e q s =
     through self_id (send_and_count self e q (as_world s self_id)) s"
proof -
  let ?qs = "selection_to_query e q"
  obtain r1 w1 where t: "try_query self e ?qs (as_world s self_id) = (r1, w1)" by fastforce
  have t': "try_query_obj self e ?qs s = (r1, put_world self_id w1 s)"
    by (simp add: try_query_obj_sim[of _ _ _ _ self_id] t)
  show ?thesis
  proof (cases r1)
    case (Raised ex)
    with t t' show ?thesis by (simp add: send_and_count_obj_def send_and_count_def)
  next
    case (Returned res)
    obtain r2 w2 where m: "insert_metrics_to_buffer self e (sq_keyword q)
        (tables_count_of (sq_tables q) (result_length res)) (query_duration e ?qs) 1 w1
        = (r2, w2)" by fastforce
    have m': "insert_metrics_to_buffer_obj self_id self e (sq_keyword q)
        (tables_count_of (sq_tables q) (result_length res)) (query_duration e ?qs) 1
        (put_world self_id w1 s) = (r2, put_world self_id w2 s)"
      by (simp add: insert_metrics_to_buffer_obj_sim m)
    from t t' m m' Returned show ?thesis
      by (cases r2) (simp_all add: send_and_count_obj_def send_and_count_def)
  qed
qed

lemma send_selection_query_obj_sim:
  "send_selection_query_obj self_id self e query s =
     through self_id (send_selection_query self e query (as_world s self_id)) s"
proof (cases query)
  case None
  then show ?thesis by (simp add: send_selection_query_obj_def send_selection_query_def)
next
  case (Some q)
  have b: "list_ex (\<lambda>tbl. tbl \<in> fst ` set (buffer_of s self_id)) (sq_tables q)
      \<longleftrightarrow> list_ex (buffered (as_world s self_id)) (sq_tables q)"
    by (simp add: list_ex_iff buffered_def)
  obtain r1 w1 where f: "flush_insert_buffer self e (as_world s self_id) = (r1, w1)"
    by fastforce
  have f': "flush_insert_buffer_obj self_id self e s = (r1, put_world self_id w1 s)"
    by (simp add: flush_insert_buffer_obj_sim f)
  have c: "send_and_count_obj self_id self e q (put_world self_id w1 s)
      = through self_id (send_and_count self e q w1) (put_world self_id w1 s)"
    by (simp add: send_and_count_obj_sim)
  obtain r2 w2 where sc: "send_and_count self e q w1 = (r2, w2)" by fastforce
  show ?thesis
  proof (cases "list_ex (buffered (as_world s self_id)) (sq_tables q)")
    case False
    with b Some show ?thesis
      by (simp add: send_selection_query_obj_def send_selection_query_def
          send_and_count_obj_sim)
  next
    case True
    with b Some f f' c sc show ?thesis
      by (cases r1) (simp_all add: send_selection_query_obj_def send_selection_query_def)
  qed
qed

lemma flush_twice_obj_sim:
  "flush_twice_obj self_id self e1 e2 s =
     through self_id (flush_twice self e1 e2 (as_world s self_id)) s"
proof -
  obtain r1 w1 where f: "flush_insert_buffer self e1 (as_world s self_id) = (r1, w1)"
    by fastforce
  have f': "flush_insert_buffer_obj self_id self e1 s = (r1, put_world self_id w1 s)"
    by (simp add: flush_insert_buffer_obj_sim f)
  obtain r2 w2 where g: "flush_insert_buffer self e2 w1 = (r2, w2)" by fastforce
  have g': "flush_insert_buffer_obj self_id self e2 (put_world self_id w1 s)
      = (r2, put_world self_id w2 s)"
    by (simp add: flush_insert_buffer_obj_sim g)
  from f f' g g' show ?thesis
    by (cases r1) (simp_all add: flush_twice_obj_def flush_twice_def)
qed

lemma log_call_after_put_world:
  "log_call ev (put_world self_id w s) = put_world self_id (log_event ev w) s"
  by (simp add: log_call_put_world[of _ _ self_id])

lemma disconnect_obj_sim:
  "disconnect_obj self_id self e1 e2 s =
     through self_id (disconnect self e1 e2 (as_world s self_id)) s"
proof -
  obtain r1 w1 where f: "flush_twice self e1 e2 (as_world s self_id) = (r1, w1)"
    by fastforce
  have f': "flush_twice_obj self_id self e1 e2 s = (r1, put_world self_id w1 s)"
    by (simp add: flush_twice_obj_sim f)
  show ?thesis
  proof (cases r1)
    case (Returned u)
    with f f' show ?thesis
      by (simp add: disconnect_obj_def disconnect_def close_client_def
          log_call_after_put_world)
  next
    case (Raised ex)
    with f f' show ?thesis
      by (cases ex) (simp_all add: disconnect_obj_def disconnect_def close_client_def
          log_call_after_put_world)
  qed
qed

text \<open>No call binds the attribute, in an instance or in the class.\<close>

lemma exec_bindings:
  "instance_insert_buffer (exec c s) self_id = None \<longleftrightarrow>
     instance_insert_buffer s self_id = None \<or> c = Init self_id"
  "class_insert_buffer (exec c s) = class_insert_buffer s"
  by (cases c; simp add: insert_dicts_to_buffer_obj_sim flush_insert_buffer_obj_sim
      send_selection_query_obj_sim disconnect_obj_sim through_def)+

lemma run_bindings:
  "instance_insert_buffer s = (\<lambda>x. None) \<Longrightarrow>
   instance_insert_buffer (run cs s) = (\<lambda>x. None)
   \<and> class_insert_buffer (run cs s) = class_insert_buffer s"
  unfolding run_def
proof (induction cs arbitrary: s)
  case Nil
  then show ?case by simp
next
  case (Cons c cs)
  have "instance_insert_buffer (exec c s) = (\<lambda>x. None)"
  proof
    fix x
    from Cons.prems have "instance_insert_buffer s x = None" by simp
    then show "instance_insert_buffer (exec c s) x = None" by (simp add: exec_bindings(1))
  qed
  from Cons.IH[OF this] show ?case by (simp add: exec_bindings(2))
qed

lemma reachable_lookup:
  "getattr_insert_buffer (run cs class_body) x = class_insert_buffer class_body"
proof -
  have "instance_insert_buffer class_body = (\<lambda>x. None)" by (simp add: class_body_def)
  from run_bindings[OF this, of cs] show ?thesis
    by (simp add: getattr_insert_buffer_def)
qed

text \<open>What a flush and a disconnect leave in the buffer and write, whatever the driver
  and the clock do.\<close>

lemma send_insert_list_trace_extends:
  "send_insert_list self e xs w = (r, w') \<Longrightarrow> \<exists>rest. trace w' = trace w @ rest"
proof (induction xs arbitrary: w)
  case Nil
  then show ?case by simp
next
  case (Cons x xs)
  obtain tbl qs where x: "x = (tbl, qs)" by (cases x)
  obtain r1 w1 where t: "try_write_points self e tbl qs w = (r1, w1)" by fastforce
  then have t1: "\<exists>rest. trace w1 = trace w @ rest"
    by (auto simp: try_write_points_def log_event_def Let_def split: option.splits if_splits)
  show ?case
  proof (cases "r1 = Returned ()")
    case False
    with Cons.prems t have "w' = w1" by (auto simp: x split: outcome.splits)
    with t1 show ?thesis by simp
  next
    case True
    let ?n = "int (length qs)"
    obtain r2 w2 where m: "insert_metrics_to_buffer self e INSERT [(tbl, ?n)]
        (write_duration e tbl qs) ?n w1 = (r2, w2)" by fastforce
    note m1 = insert_metrics_trace[OF m]
    show ?thesis
    proof (cases "r2 = Returned ()")
      case False
      with Cons.prems t True m have "w' = w2" by (auto simp: x split: outcome.splits)
      with t1 m1 show ?thesis by simp
    next
      case r2: True
      from Cons.prems t True m r2 have "send_insert_list self e xs w2 = (r, w')"
        by (simp add: x)
      from Cons.IH[OF this] t1 m1 show ?thesis by auto
    qed
  qed
qed

lemma flush_trace_extends:
  "flush_insert_buffer self e w = (r, w') \<Longrightarrow> \<exists>rest. trace w' = trace w @ rest"
  using send_insert_list_trace_extends[of self e "insert_list_of e (insert_buffer w)"
      "w\<lparr>insert_buffer := []\<rparr>" r w']
  by (auto simp: flush_insert_buffer_def split: if_splits)

lemma flush_drains:
  assumes "flush_insert_buffer self e w = (r, w')"
  shows "\<exists>j k. j \<le> length (insert_buffer w) \<and> k \<le> length (insert_buffer w)
     \<and> insert_buffer w' = with_metrics (metrics_table self)
          (map (flush_metrics self e) (take j (insert_list_of e (insert_buffer w)))) []
     \<and> filter is_write (trace w') = filter is_write (trace w)
          @ map (write_event self) (take k (insert_list_of e (insert_buffer w)))
     \<and> (r = Returned () \<longrightarrow> j = length (insert_buffer w) \<and> k = length (insert_buffer w))"
proof (cases "insert_buffer w = []")
  case True
  with assms have "w' = w" "r = Returned ()" by (simp_all add: flush_insert_buffer_def)
  with True show ?thesis by (simp add: with_metrics_def)
next
  case False
  let ?il = "insert_list_of e (insert_buffer w)"
  from False assms have s: "send_insert_list self e ?il (w\<lparr>insert_buffer := []\<rparr>) = (r, w')"
    by (simp add: flush_insert_buffer_def)
  from send_insert_list_prefix[OF s] obtain j where j: "j \<le> length ?il"
    "insert_buffer w' = with_metrics (metrics_table self) (map (flush_metrics self e) (take j ?il)) []"
    "r = Returned () \<longrightarrow> j = length ?il" by auto
  from send_insert_list_writes[OF s] obtain k where k: "k \<le> length ?il"
    "filter is_write (trace w') = filter is_write (trace w) @ map (write_event self) (take k ?il)"
    "r = Returned () \<longrightarrow> k = length ?il" by auto
  from j k show ?thesis
    unfolding length_insert_list_of by blast
qed

lemma flush_metrics_left:
  assumes "flush_insert_buffer self e w = (r, w')"
    and "insert_buffer w = with_metrics (metrics_table self) ms0 []"
    and "set ms0 \<subseteq> M"
  shows "\<exists>ms. insert_buffer w' = with_metrics (metrics_table self) ms []
           \<and> set ms \<subseteq> M \<union> range (flush_metrics self e)"
proof (cases "insert_buffer w = []")
  case True
  with assms(1) have "w' = w" by (simp add: flush_insert_buffer_def)
  with assms(2,3) show ?thesis by blast
next
  case False
  from flush_drains[OF assms(1)] obtain j where
    "insert_buffer w' = with_metrics (metrics_table self)
          (map (flush_metrics self e) (take j (insert_list_of e (insert_buffer w)))) []"
    by blast
  then show ?thesis by (intro exI conjI) (assumption, auto)
qed

lemma disconnect_drains:
  assumes "disconnect self e1 e2 w = (r, w')"
  shows "\<exists>ms. insert_buffer w' = with_metrics (metrics_table self) ms []
           \<and> set ms \<subseteq> range (flush_metrics self e1) \<union> range (flush_metrics self e2)"
    and "\<exists>rest. trace w' = trace (snd (flush_insert_buffer self e1 w)) @ rest"
proof -
  obtain r1 w1 where f1: "flush_insert_buffer self e1 w = (r1, w1)" by fastforce
  from flush_drains[OF f1] obtain ms1 where
    b1: "insert_buffer w1 = with_metrics (metrics_table self) ms1 []"
    and m1: "set ms1 \<subseteq> range (flush_metrics self e1)"
    by (metis image_mono list.set_map subset_UNIV)
  obtain r2 w2 where f2: "flush_insert_buffer self e2 w1 = (r2, w2)" by fastforce
  from flush_metrics_left[OF f2 b1 m1] obtain ms2 where
    b2: "insert_buffer w2 = with_metrics (metrics_table self) ms2 []"
    and m2: "set ms2 \<subseteq> range (flush_metrics self e1) \<union> range (flush_metrics self e2)"
    by blast
  from flush_trace_extends[OF f2] obtain rest2 where t2: "trace w2 = trace w1 @ rest2" by blast
  obtain rt wt where ft: "flush_twice self e1 e2 w = (rt, wt)" by fastforce
  have wt: "(insert_buffer wt = insert_buffer w1 \<or> insert_buffer wt = insert_buffer w2)
      \<and> (\<exists>rest. trace wt = trace w1 @ rest)"
    using ft f1 f2 t2 by (cases r1) (auto simp: flush_twice_def)
  have d: "insert_buffer w' = insert_buffer wt \<and> (\<exists>rest. trace w' = trace wt @ rest)"
    using assms ft
    by (auto simp: disconnect_def close_client_def log_event_def
        split: outcome.splits exn.splits)
  from d wt b1 b2 m1 m2
  show "\<exists>ms. insert_buffer w' = with_metrics (metrics_table self) ms []
           \<and> set ms \<subseteq> range (flush_metrics self e1) \<union> range (flush_metrics self e2)"
    by (metis Un_upper1 subset_trans)
  from d wt f1 show "\<exists>rest. trace w' = trace (snd (flush_insert_buffer self e1 w)) @ rest"
    by auto
qed

text \<open>Two instances that look up the same dict object: what one method call leaves is
  what the other instance reads.\<close>

lemma as_world_same_lookup:
  "getattr_insert_buffer s a = getattr_insert_buffer s b \<Longrightarrow> as_world s a = as_world s b"
  by (simp add: as_world_def buffer_of_def)

lemma example_two_instances: "two_instances = class_body"
  by (simp add: two_instances_def run_def class_body_def)

lemma example_as_world_two_instances: "as_world two_instances x = empty_world"
  by (simp add: example_two_instances as_world_def buffer_of_def class_body_def empty_world_def)

lemma example_ingest_world_A:
  "insert_dicts_to_buffer example_client example_env (Some ''A'') (Some [row_1]) empty_world
     = (Returned (), world_A)"
proof -
  have "pending example_client ''A'' world_A \<le> 5 * query_max_batch_size"
    unfolding threshold_value
    by (simp add: pending_def example_table_A world_A_def dict_get_def)
  then show ?thesis
    by (simp add: insert_dicts_to_buffer_unfold example_appended(3))
qed

lemma example_insert_list_A:
  "insert_list_of example_env (insert_buffer world_A) = [(table_A, [''A''])]"
  by (simp add: insert_list_of_def world_A_def example_env_def query_of_def table_A_def)

lemma example_flush_other_client:
  "\<exists>w. flush_insert_buffer other_client example_env world_A = (Returned (), w)"
proof -
  have ne: "insert_buffer world_A \<noteq> []" by (simp add: world_A_def)
  have ok: "\<forall>x\<in>set (insert_list_of example_env (insert_buffer world_A)). step_ok example_env x"
    unfolding example_insert_list_A
    by (simp add: step_ok_def send_caught_def example_env_def)
  from flush_all_steps_ok[OF ne ok] show ?thesis by blast
qed

text \<open>The premise that no instance has a binding of its own is needed: in a store where
  instance 2 has one, what instance 1 ingests is not in the buffer that instance 2
  reads.\<close>

lemma own_binding_not_shared:
  "buffer_of (snd (insert_dicts_to_buffer_obj 1 example_client example_env (Some ''A'')
                    (Some [row_1]) rebound_store)) 1 = [(table_A, [query_of table_A])]
   \<and> buffer_of (snd (insert_dicts_to_buffer_obj 1 example_client example_env (Some ''A'')
                    (Some [row_1]) rebound_store)) 2 = []"
proof -
  have w: "as_world rebound_store 1 = empty_world"
    by (simp add: as_world_def buffer_of_def getattr_insert_buffer_def rebound_store_def
        class_body_def empty_world_def)
  have "insert_dicts_to_buffer_obj 1 example_client example_env (Some ''A'')
                    (Some [row_1]) rebound_store = (Returned (), put_world 1 world_A rebound_store)"
    unfolding insert_dicts_to_buffer_obj_sim w example_ingest_world_A by simp
  then have s: "snd (insert_dicts_to_buffer_obj 1 example_client example_env (Some ''A'')
                    (Some [row_1]) rebound_store) = put_world 1 world_A rebound_store"
    by simp
  show ?thesis
    unfolding s
    by (simp add: buffer_of_def put_world_def getattr_insert_buffer_def rebound_store_def
        class_body_def world_A_def)
qed

text \<open>
  Claim C10. The class body binds \<^verbatim>\<open>__insert_buffer\<close> in the class, \<^verbatim>\<open>__init__\<close> binds it in
  no instance, and no method binds it at all: the methods only look it up, assign items
  of the dict they find and clear it. So in every store \<open>s\<close> that a program reaches from
  the class body by creating instances and calling methods, for any two instances \<open>a\<close>
  and \<open>b\<close> (in particular two distinct ones):
  \<^item> neither has a binding of its own, the class attribute is still bound to the dict of
    the class body, and the lookup through \<open>a\<close> and through \<open>b\<close> yields that same dict;
  \<^item> after \<^verbatim>\<open>a.insert_dicts_to_buffer\<close>, whatever its outcome, nothing has been rebound and
    \<open>b\<close> reads the buffer that \<open>a\<close> reads; when the call stays at or below the flush
    threshold it returns and the queries of the dicts are pending, under their table, in
    the buffer that \<open>b\<close> reads;
  \<^item> a following \<^verbatim>\<open>b.flush_insert_buffer\<close>, whatever the driver and the clock do, leaves
    in the buffer that \<open>a\<close> reads nothing but metrics records of that flush, and has
    written a prefix of what was pending through the driver handle of \<open>b\<close> into the
    database of \<open>b\<close>: all of it when the flush returns;
  \<^item> a following \<^verbatim>\<open>b.disconnect\<close> begins with that flush, and leaves in the buffer that
    \<open>a\<close> reads nothing but metrics records of its two flushes.
\<close>

theorem buffer_shared_between_instances:
  assumes "s = run cs class_body"
  shows "instance_insert_buffer s a = None \<and> instance_insert_buffer s b = None
    \<and> class_insert_buffer s = class_insert_buffer class_body
    \<and> getattr_insert_buffer s a = class_insert_buffer class_body
    \<and> getattr_insert_buffer s b = class_insert_buffer class_body
    \<and> (insert_dicts_to_buffer_obj a self_a e tname list_with_dicts s = (r1, s1) \<longrightarrow>
         instance_insert_buffer s1 = instance_insert_buffer s
       \<and> class_insert_buffer s1 = class_insert_buffer s
       \<and> getattr_insert_buffer s1 b = getattr_insert_buffer s1 a
       \<and> buffer_of s1 b = buffer_of s1 a
       \<and> (tname = Some n \<and> n \<noteq> [] \<and> list_with_dicts = Some dicts \<and> dicts \<noteq> []
            \<and> length (dict_get (buffer_of s a) (database_tables self_a n)
                        @ generate_queries e (database_tables self_a n) dicts)
                \<le> 5 * query_max_batch_size \<longrightarrow>
            r1 = Returned ()
          \<and> dict_get (buffer_of s1 b) (database_tables self_a n)
              = dict_get (buffer_of s a) (database_tables self_a n)
                  @ generate_queries e (database_tables self_a n) dicts)
       \<and> (flush_insert_buffer_obj b self_b e1 s1 = (r2, s2) \<longrightarrow>
            (\<exists>j k. j \<le> length (buffer_of s1 a) \<and> k \<le> length (buffer_of s1 a)
               \<and> buffer_of s2 a = with_metrics (metrics_table self_b)
                    (map (flush_metrics self_b e1) (take j (insert_list_of e1 (buffer_of s1 a)))) []
               \<and> filter is_write (store_trace s2) = filter is_write (store_trace s1)
                    @ map (write_event self_b) (take k (insert_list_of e1 (buffer_of s1 a)))
               \<and> (r2 = Returned () \<longrightarrow>
                    j = length (buffer_of s1 a) \<and> k = length (buffer_of s1 a))))
       \<and> (disconnect_obj b self_b e1 e2 s1 = (r3, s3) \<longrightarrow>
            (\<exists>ms. buffer_of s3 a = with_metrics (metrics_table self_b) ms []
               \<and> set ms \<subseteq> range (flush_metrics self_b e1) \<union> range (flush_metrics self_b e2))
          \<and> (\<exists>rest. store_trace s3
                = store_trace (snd (flush_insert_buffer_obj b self_b e1 s1)) @ rest)))"
    (is "_ \<and> _ \<and> _ \<and> _ \<and> _ \<and> (_ \<longrightarrow> ?after_ingest)")
proof -
  have i0: "instance_insert_buffer class_body = (\<lambda>x. None)" by (simp add: class_body_def)
  note rb = run_bindings[OF i0, of cs, folded assms]
  have g: "getattr_insert_buffer s x = class_insert_buffer class_body" for x
    unfolding assms by (rule reachable_lookup)
  have ingest: ?after_ingest
    if i: "insert_dicts_to_buffer_obj a self_a e tname list_with_dicts s = (r1, s1)"
  proof -
    obtain w1 where w1: "insert_dicts_to_buffer self_a e tname list_with_dicts (as_world s a)
        = (r1, w1)" and s1: "s1 = put_world a w1 s"
      using i by (cases "insert_dicts_to_buffer self_a e tname list_with_dicts (as_world s a)")
        (simp add: insert_dicts_to_buffer_obj_sim)
    have p1: "instance_insert_buffer s1 = instance_insert_buffer s"
      and p2: "class_insert_buffer s1 = class_insert_buffer s"
      by (simp_all add: s1)
    have g1: "getattr_insert_buffer s1 x = getattr_insert_buffer s a" for x
      by (simp add: s1 g)
    have ba: "buffer_of s1 x = insert_buffer w1" for x
      unfolding s1 by (rule buffer_of_put_world) (simp add: g)
    have p3: "tname = Some n \<and> n \<noteq> [] \<and> list_with_dicts = Some dicts \<and> dicts \<noteq> []
            \<and> length (dict_get (buffer_of s a) (database_tables self_a n)
                        @ generate_queries e (database_tables self_a n) dicts)
                \<le> 5 * query_max_batch_size \<longrightarrow>
            r1 = Returned ()
          \<and> dict_get (buffer_of s1 b) (database_tables self_a n)
              = dict_get (buffer_of s a) (database_tables self_a n)
                  @ generate_queries e (database_tables self_a n) dicts"
    proof
      assume h: "tname = Some n \<and> n \<noteq> [] \<and> list_with_dicts = Some dicts \<and> dicts \<noteq> []
            \<and> length (dict_get (buffer_of s a) (database_tables self_a n)
                        @ generate_queries e (database_tables self_a n) dicts)
                \<le> 5 * query_max_batch_size"
      then have pe: "pending self_a n (appended self_a e n dicts (as_world s a))
          \<le> 5 * query_max_batch_size"
        by (simp add: pending_def appended_def dict_get_update_same)
      from h have "insert_dicts_to_buffer self_a e tname list_with_dicts (as_world s a)
          = (Returned (), appended self_a e n dicts (as_world s a))"
        using pe by (simp add: insert_dicts_to_buffer_unfold)
      with w1 have "r1 = Returned ()" "w1 = appended self_a e n dicts (as_world s a)"
        by simp_all
      then show "r1 = Returned ()
          \<and> dict_get (buffer_of s1 b) (database_tables self_a n)
              = dict_get (buffer_of s a) (database_tables self_a n)
                  @ generate_queries e (database_tables self_a n) dicts"
        by (simp add: ba appended_def dict_get_update_same)
    qed
    have p4: "\<exists>j k. j \<le> length (buffer_of s1 a) \<and> k \<le> length (buffer_of s1 a)
               \<and> buffer_of s2 a = with_metrics (metrics_table self_b)
                    (map (flush_metrics self_b e1) (take j (insert_list_of e1 (buffer_of s1 a)))) []
               \<and> filter is_write (store_trace s2) = filter is_write (store_trace s1)
                    @ map (write_event self_b) (take k (insert_list_of e1 (buffer_of s1 a)))
               \<and> (r2 = Returned () \<longrightarrow>
                    j = length (buffer_of s1 a) \<and> k = length (buffer_of s1 a))"
      if f: "flush_insert_buffer_obj b self_b e1 s1 = (r2, s2)"
    proof -
      obtain w2 where w2: "flush_insert_buffer self_b e1 (as_world s1 b) = (r2, w2)"
        and s2: "s2 = put_world b w2 s1"
        using f by (cases "flush_insert_buffer self_b e1 (as_world s1 b)")
          (simp add: flush_insert_buffer_obj_sim)
      have b2: "buffer_of s2 a = insert_buffer w2"
        unfolding s2 by (rule buffer_of_put_world) (simp add: g1)
      have t2: "store_trace s2 = trace w2" by (simp add: s2)
      from flush_drains[OF w2] show ?thesis
        unfolding b2 t2 ba insert_buffer_as_world trace_as_world .
    qed
    have p5: "(\<exists>ms. buffer_of s3 a = with_metrics (metrics_table self_b) ms []
               \<and> set ms \<subseteq> range (flush_metrics self_b e1) \<union> range (flush_metrics self_b e2))
          \<and> (\<exists>rest. store_trace s3
                = store_trace (snd (flush_insert_buffer_obj b self_b e1 s1)) @ rest)"
      if d: "disconnect_obj b self_b e1 e2 s1 = (r3, s3)"
    proof -
      obtain w3 where w3: "disconnect self_b e1 e2 (as_world s1 b) = (r3, w3)"
        and s3: "s3 = put_world b w3 s1"
        using d by (cases "disconnect self_b e1 e2 (as_world s1 b)")
          (simp add: disconnect_obj_sim)
      have b3: "buffer_of s3 a = insert_buffer w3"
        unfolding s3 by (rule buffer_of_put_world) (simp add: g1)
      have t3: "store_trace s3 = trace w3" by (simp add: s3)
      have tf: "store_trace (snd (flush_insert_buffer_obj b self_b e1 s1))
          = trace (snd (flush_insert_buffer self_b e1 (as_world s1 b)))"
        by (simp add: flush_insert_buffer_obj_sim through_def)
      from disconnect_drains[OF w3] show ?thesis
        unfolding b3 t3 tf by simp
    qed
    have p6: "getattr_insert_buffer s1 b = getattr_insert_buffer s1 a" by (simp add: g1)
    have p7: "buffer_of s1 b = buffer_of s1 a" by (simp add: ba)
    from p4 have p8: "flush_insert_buffer_obj b self_b e1 s1 = (r2, s2) \<longrightarrow>
            (\<exists>j k. j \<le> length (buffer_of s1 a) \<and> k \<le> length (buffer_of s1 a)
               \<and> buffer_of s2 a = with_metrics (metrics_table self_b)
                    (map (flush_metrics self_b e1) (take j (insert_list_of e1 (buffer_of s1 a)))) []
               \<and> filter is_write (store_trace s2) = filter is_write (store_trace s1)
                    @ map (write_event self_b) (take k (insert_list_of e1 (buffer_of s1 a)))
               \<and> (r2 = Returned () \<longrightarrow>
                    j = length (buffer_of s1 a) \<and> k = length (buffer_of s1 a)))"
      by (rule impI)
    from p5 have p9: "disconnect_obj b self_b e1 e2 s1 = (r3, s3) \<longrightarrow>
            (\<exists>ms. buffer_of s3 a = with_metrics (metrics_table self_b) ms []
               \<and> set ms \<subseteq> range (flush_metrics self_b e1) \<union> range (flush_metrics self_b e2))
          \<and> (\<exists>rest. store_trace s3
                = store_trace (snd (flush_insert_buffer_obj b self_b e1 s1)) @ rest)"
      by (rule impI)
    show ?thesis
      by (rule conjI[OF p1 conjI[OF p2 conjI[OF p6 conjI[OF p7 conjI[OF p3 conjI[OF p8 p9]]]]]])
  qed
  have c1: "instance_insert_buffer s a = None" and c2: "instance_insert_buffer s b = None"
    and c3: "class_insert_buffer s = class_insert_buffer class_body"
    using rb by simp_all
  from ingest have c6: "insert_dicts_to_buffer_obj a self_a e tname list_with_dicts s = (r1, s1)
      \<longrightarrow> ?after_ingest"
    by (rule impI)
  show ?thesis
    by (rule conjI[OF c1 conjI[OF c2 conjI[OF c3 conjI[OF g conjI[OF g c6]]]]])
qed

text \<open>Two instances with the identities 1 and 2. A row ingested through the first is
  pending in the buffer that the second reads; the flush of the second writes it through
  handle 1 into the database of the second and leaves one metrics record in the buffer
  that the first reads; the disconnect of the second leaves nothing but metrics records
  there.\<close>

theorem buffer_shared_between_instances_witness:
  "(1::nat) \<noteq> 2
   \<and> (\<exists>s1. insert_dicts_to_buffer_obj 1 example_client example_env (Some ''A'') (Some [row_1])
              two_instances = (Returned (), s1)
        \<and> instance_insert_buffer s1 2 = None
        \<and> dict_get (buffer_of s1 2) table_A = [query_of table_A]
        \<and> (\<exists>s2. flush_insert_buffer_obj 2 other_client example_env s1 = (Returned (), s2)
              \<and> filter is_write (store_trace s2) = [Write_points 1 ''other'' ''rp'' 10000 [''A'']]
              \<and> buffer_of s2 1
                  = [(table_M, [flush_metrics other_client example_env (table_A, [''A''])])])
        \<and> (\<exists>r3 s3 ms. disconnect_obj 2 other_client example_env example_env s1 = (r3, s3)
              \<and> buffer_of s3 1 = with_metrics table_M ms []
              \<and> set ms \<subseteq> range (flush_metrics other_client example_env)))"
proof -
  let ?s1 = "put_world 1 world_A two_instances"
  have i: "insert_dicts_to_buffer_obj 1 example_client example_env (Some ''A'') (Some [row_1])
      two_instances = (Returned (), ?s1)"
    unfolding insert_dicts_to_buffer_obj_sim example_as_world_two_instances
      example_ingest_world_A by simp
  have g: "getattr_insert_buffer two_instances 2 = getattr_insert_buffer two_instances 1"
    by (simp add: example_two_instances getattr_insert_buffer_def class_body_def)
  have b0: "buffer_of two_instances x = []" for x
    by (simp add: example_two_instances buffer_of_def class_body_def)
  have b1: "buffer_of ?s1 1 = insert_buffer world_A"
    by (rule buffer_of_put_world) simp
  have t1: "store_trace ?s1 = []" by (simp add: world_A_def)
  have aw: "as_world ?s1 2 = world_A"
    using buffer_of_put_world[OF g, of world_A]
    by (simp add: as_world_def world_A_def)
  from example_flush_other_client obtain w2 where
    "flush_insert_buffer other_client example_env world_A = (Returned (), w2)" by blast
  then have f: "flush_insert_buffer_obj 2 other_client example_env ?s1
      = (Returned (), put_world 2 w2 ?s1)"
    unfolding flush_insert_buffer_obj_sim aw by simp
  obtain r3 s3 where d: "disconnect_obj 2 other_client example_env example_env ?s1 = (r3, s3)"
    by fastforce
  have len: "length (dict_get (buffer_of two_instances 1) (database_tables example_client ''A'')
        @ generate_queries example_env (database_tables example_client ''A'') [row_1])
      \<le> 5 * query_max_batch_size"
    unfolding threshold_value example_table_A example_generate_row_1
    by (simp add: b0 dict_get_def)
  have c: "client other_client = 1" "database_name other_client = ''other''"
    "metrics_table other_client = table_M" "retention_policy_name table_A = ''rp''"
    by (simp_all add: other_client_def example_client_def table_A_def)
  note T = buffer_shared_between_instances[OF two_instances_def, of 1 2 example_client
      example_env "Some ''A''" "Some [row_1]" "Returned ()" ?s1 "''A''" "[row_1]"
      other_client example_env "Returned ()" "put_world 2 w2 ?s1" example_env r3 s3]
  have h: "Some ''A'' = Some ''A'' \<and> ''A'' \<noteq> [] \<and> Some [row_1] = Some [row_1] \<and> [row_1] \<noteq> []
      \<and> length (dict_get (buffer_of two_instances 1) (database_tables example_client ''A'')
                  @ generate_queries example_env (database_tables example_client ''A'') [row_1])
          \<le> 5 * query_max_batch_size"
    using len by blast
  from T have "instance_insert_buffer two_instances 2 = None" by blast
  moreover from T i have "instance_insert_buffer ?s1 = instance_insert_buffer two_instances"
    by blast
  ultimately have A: "instance_insert_buffer ?s1 2 = None" by (simp only:)
  from T i h have "dict_get (buffer_of ?s1 2) (database_tables example_client ''A'')
      = dict_get (buffer_of two_instances 1) (database_tables example_client ''A'')
          @ generate_queries example_env (database_tables example_client ''A'') [row_1]"
    by blast
  then have B: "dict_get (buffer_of ?s1 2) table_A = [query_of table_A]"
    unfolding example_table_A example_generate_row_1 b0 by (simp add: dict_get_def)
  from T i f obtain j k where jk:
    "buffer_of (put_world 2 w2 ?s1) 1 = with_metrics (metrics_table other_client)
        (map (flush_metrics other_client example_env)
           (take j (insert_list_of example_env (buffer_of ?s1 1)))) []"
    "filter is_write (store_trace (put_world 2 w2 ?s1)) = filter is_write (store_trace ?s1)
          @ map (write_event other_client)
              (take k (insert_list_of example_env (buffer_of ?s1 1)))"
    "Returned () = Returned () \<longrightarrow> j = length (buffer_of ?s1 1) \<and> k = length (buffer_of ?s1 1)"
    by blast
  from jk(3) have j: "j = 1" and k: "k = 1"
    unfolding b1 by (simp_all add: world_A_def)
  from jk(1,2) have C: "filter is_write (store_trace (put_world 2 w2 ?s1))
        = [Write_points 1 ''other'' ''rp'' 10000 [''A'']]
      \<and> buffer_of (put_world 2 w2 ?s1) 1
        = [(table_M, [flush_metrics other_client example_env (table_A, [''A''])])]"
    unfolding b1 example_insert_list_A t1 j k
    by (simp add: with_metrics_empty_buffer write_event_def c query_max_batch_size_def
        del: One_nat_def)
  from T i d have "\<exists>ms. buffer_of s3 1 = with_metrics (metrics_table other_client) ms []
      \<and> set ms \<subseteq> range (flush_metrics other_client example_env)
                  \<union> range (flush_metrics other_client example_env)"
    by blast
  then have D: "\<exists>ms. buffer_of s3 1 = with_metrics table_M ms []
      \<and> set ms \<subseteq> range (flush_metrics other_client example_env)"
    unfolding c by (simp del: One_nat_def)
  have n: "(1::nat) \<noteq> 2" by simp
  from n i A B f C d D show ?thesis by blast
qed

end
